theory Spec2Isabelle
  imports Main
begin

section \<open>Python values used by the autofix tool\<close>

text \<open>
  The tool is Python 2. Its byte strings are modelled as \<open>string\<close>, its unbounded
  integers as \<open>int\<close>, and every \<^verbatim>\<open>raise\<close> as a value of \<open>error\<close>: one constructor per
  \<^verbatim>\<open>raise Exception(...)\<close> of the source (carrying the values the message interpolates),
  and one per built-in exception class the interpreter raises on its own.
\<close>

datatype error =
    VersionArgNoMatch string            \<comment> \<open>\<^verbatim>\<open>version "%s" did not match regex "%s"\<close>\<close>
  | VersionInfoNoMatch string           \<comment> \<open>\<^verbatim>\<open>version info "%s" did not match regex "%s"\<close>\<close>
  | NotAValidDate int int int string    \<comment> \<open>\<^verbatim>\<open>%04d-%02d-%02d in %s is not a valid date\<close>\<close>
  | AfterCurrentDate int int int string \<comment> \<open>\<^verbatim>\<open>%s in %s is after the current date\<close>\<close>
  | TooFarInThePast string              \<comment> \<open>\<^verbatim>\<open>date in %s appears too far in the past\<close>\<close>
  | CouldNotMatchDate string            \<comment> \<open>\<^verbatim>\<open>could not match "%s" with "%s"\<close>\<close>
  | NotHintableScript string            \<comment> \<open>\<^verbatim>\<open>not a hintable script: "%s"\<close>\<close>
  | ReleaseDirMissing string            \<comment> \<open>\<^verbatim>\<open>release dir "%s" does not exist\<close>\<close>
  | NoVersionInfo                       \<comment> \<open>\<^verbatim>\<open>could not compute version info from fonts\<close>\<close>
  | ExistingVersionNoMatch string       \<comment> \<open>\<^verbatim>\<open>could not match existing version "%s"\<close>\<close>
  | NewBelowRelease string string       \<comment> \<open>\<^verbatim>\<open>new version %s < release version %s\<close>\<close>
  | NewBelowOld string string           \<comment> \<open>\<^verbatim>\<open>new version %s < old version %s\<close>\<close>
  | CannotBump string                   \<comment> \<open>\<^verbatim>\<open>cannot bump version %s\<close>\<close>
  | OldVersionTooHigh string            \<comment> \<open>\<^verbatim>\<open>old version too high "%s"\<close>\<close>
  | NotANotoFont string                 \<comment> \<open>\<^verbatim>\<open>not a noto font: "%s"\<close>\<close>
  | LargeDifference string              \<comment> \<open>\<^verbatim>\<open>unexpectedly large different in expected and actual %s\<close>\<close>
  | NoExpectedUIMetrics int             \<comment> \<open>\<^verbatim>\<open>no expected ui ascent/descent for upem: %d\<close>\<close>
  | NotADirectory string                \<comment> \<open>ValueError: \<^verbatim>\<open>%s exists and is not a directory\<close>\<close>
  | NoConfigEntry string                \<comment> \<open>ValueError: \<^verbatim>\<open>notoconfig has no entry for %s\<close>\<close>
  | ValueError                          \<comment> \<open>\<^verbatim>\<open>int()\<close> on a string that is no integer literal\<close>
  | IndexError
  | KeyError
  | TypeError
  | AttributeError
  | IOError string                      \<comment> \<open>the font library cannot open the path\<close>
  | CalledProcessError "string list"    \<comment> \<open>\<^verbatim>\<open>subprocess.check_call\<close>, non-zero exit status\<close>

subsection \<open>Characters and decimal numerals\<close>

definition is_digit :: "char \<Rightarrow> bool" where
  \<comment> \<open>\<^verbatim>\<open>\d\<close> of a Python 2 pattern compiled without flags: the ASCII digits\<close>
  "is_digit c = (c \<in> set ''0123456789'')"

definition is_hex_lower :: "char \<Rightarrow> bool" where
  \<comment> \<open>the class \<^verbatim>\<open>[0-9a-f]\<close>\<close>
  "is_hex_lower c = (c \<in> set ''0123456789abcdef'')"

definition is_space :: "char \<Rightarrow> bool" where
  \<comment> \<open>C \<^verbatim>\<open>isspace\<close>: space, tab, newline, vertical tab, form feed, carriage return\<close>
  "is_space c = (c \<in> set [CHR '' '', CHR 0x09, CHR 0x0A, CHR 0x0B, CHR 0x0C, CHR 0x0D])"

definition digit_val :: "char \<Rightarrow> nat" where
  \<comment> \<open>the position of a digit in \<^verbatim>\<open>'0123456789'\<close>\<close>
  "digit_val c = length (takeWhile (\<lambda>x. x \<noteq> c) ''0123456789'')"

definition digit_char :: "nat \<Rightarrow> char" where
  "digit_char d = ''0123456789'' ! d"

definition nat_of_digits :: "string \<Rightarrow> nat" where
  \<comment> \<open>the value of a string of decimal digits, most significant first\<close>
  "nat_of_digits ds = foldl (\<lambda>acc c. 10 * acc + digit_val c) 0 ds"

fun digits_of :: "nat \<Rightarrow> string" where
  "digits_of n = (if n < 10 then [digit_char n] else digits_of (n div 10) @ [digit_char (n mod 10)])"

declare digits_of.simps [simp del]

definition py_int :: "string \<Rightarrow> error + int" where
  \<comment> \<open>\<^verbatim>\<open>int(s)\<close> on a byte string, base 10 (CPython 2.7): leading whitespace, an optional
      sign, whitespace again, at least one digit, trailing whitespace; anything else
      raises ValueError.\<close>
  "py_int s =
     (let s1 = dropWhile is_space s;
          neg = (s1 \<noteq> [] \<and> hd s1 = CHR ''-'');
          s2 = (if s1 \<noteq> [] \<and> (hd s1 = CHR ''-'' \<or> hd s1 = CHR ''+'') then tl s1 else s1);
          s3 = dropWhile is_space s2;
          ds = takeWhile is_digit s3;
          rest = dropWhile is_space (dropWhile is_digit s3)
      in if ds = [] \<or> rest \<noteq> [] then Inl ValueError
         else Inr (if neg then - int (nat_of_digits ds) else int (nat_of_digits ds)))"

definition fmt_d :: "int \<Rightarrow> string" where
  \<comment> \<open>\<^verbatim>\<open>'%d' % n\<close>\<close>
  "fmt_d n = (if n < 0 then ''-'' @ digits_of (nat (- n)) else digits_of (nat n))"

definition fmt_0d :: "nat \<Rightarrow> int \<Rightarrow> string" where
  \<comment> \<open>\<^verbatim>\<open>'%0wd' % n\<close>: zeros between the sign and the digits up to width w\<close>
  "fmt_0d w n =
     (let sign = (if n < 0 then ''-'' else '''');
          ds = digits_of (nat \<bar>n\<bar>)
      in sign @ replicate (w - length sign - length ds) CHR ''0'' @ ds)"

definition fmt_wd :: "nat \<Rightarrow> int \<Rightarrow> string" where
  \<comment> \<open>\<^verbatim>\<open>'%wd' % n\<close>: spaces on the left up to width w\<close>
  "fmt_wd w n = (let s = fmt_d n in replicate (w - length s) CHR '' '' @ s)"

fun split_on :: "char \<Rightarrow> string \<Rightarrow> string list" where
  \<comment> \<open>\<^verbatim>\<open>s.split(c)\<close>: every occurrence of the separator splits, empty pieces are kept\<close>
  "split_on c [] = [[]]"
| "split_on c (x # xs) =
     (if x = c then [] # split_on c xs
      else (let r = split_on c xs in (x # hd r) # tl r))"

fun strip_prefix :: "string \<Rightarrow> string \<Rightarrow> string option" where
  "strip_prefix [] s = Some s"
| "strip_prefix (p # ps) [] = None"
| "strip_prefix (p # ps) (c # cs) = (if p = c then strip_prefix ps cs else None)"

fun list_lt :: "int list \<Rightarrow> int list \<Rightarrow> bool" where
  \<comment> \<open>Python's \<^verbatim>\<open><\<close> on lists of integers: the first differing position decides, a
      proper prefix is smaller\<close>
  "list_lt [] [] = False"
| "list_lt [] (y # ys) = True"
| "list_lt (x # xs) [] = False"
| "list_lt (x # xs) (y # ys) = (if x = y then list_lt xs ys else x < y)"

section \<open>Fonts and the outside world\<close>

text \<open>
  A font object of the font library, reduced to the tables and fields the tool reads or
  writes. A float is kept as the text it was converted from (\<^verbatim>\<open>float(s)\<close>); how the
  library prints a revision is a parameter of the model.
\<close>

datatype pyfloat = Float string

record font =
  names :: "nat \<rightharpoonup> string"          \<comment> \<open>\<^verbatim>\<open>font_data.get_name_records(font)\<close>\<close>
  head_fontRevision :: pyfloat
  head_unitsPerEm :: int
  hhea_ascent :: int
  hhea_descent :: int
  os2_sTypoAscender :: int
  os2_usWinAscent :: int
  os2_sTypoDescender :: int
  os2_usWinDescent :: int

record font_info =
  is_UI_metrics :: bool
  script :: string

text \<open>
  The effects of a run, in order, and the part of the file system the tool looks at.
\<close>

datatype event =
    Print string                \<comment> \<open>one \<^verbatim>\<open>print\<close> statement\<close>
  | MakeDirs string             \<comment> \<open>\<^verbatim>\<open>os.makedirs(path)\<close>\<close>
  | LoadFont string             \<comment> \<open>\<^verbatim>\<open>ttLib.TTFont(path)\<close>\<close>
  | SaveFont string             \<comment> \<open>\<^verbatim>\<open>font.save(path)\<close>\<close>
  | CheckCall "string list"     \<comment> \<open>\<^verbatim>\<open>subprocess.check_call(args)\<close>\<close>

record world =
  w_dirs :: "string set"             \<comment> \<open>paths that are directories\<close>
  w_files :: "string set"            \<comment> \<open>paths that exist and are regular files\<close>
  w_fonts :: "string \<rightharpoonup> font"       \<comment> \<open>what the font library reads at a path\<close>
  w_events :: "event list"           \<comment> \<open>effects so far, oldest first\<close>

definition emit :: "event \<Rightarrow> world \<Rightarrow> world" where
  "emit e w = w\<lparr>w_events := w_events w @ [e]\<rparr>"

definition print :: "string \<Rightarrow> world \<Rightarrow> world" where
  "print s w = emit (Print s) w"

section \<open>Version strings\<close>

definition version_re_match :: "string \<Rightarrow> string option" where
  \<comment> \<open>\<^verbatim>\<open>_version_re.match(s).group(1)\<close> for \<^verbatim>\<open>r'Version (\d+\.\d{2,3})'\<close>: a match at the
      start of s; the quantifiers are greedy\<close>
  "version_re_match s =
     (case strip_prefix ''Version '' s of
        None \<Rightarrow> None
      | Some r \<Rightarrow>
          (let major = takeWhile is_digit r; r1 = dropWhile is_digit r
           in if major = [] then None
              else (case r1 of
                      [] \<Rightarrow> None
                    | c # r2 \<Rightarrow>
                        if c \<noteq> CHR ''.'' then None
                        else (let minor = takeWhile is_digit (take 3 r2)
                              in if length minor < 2 then None
                                 else Some (major @ ''.'' @ minor)))))"

definition font_version :: "font \<Rightarrow> error + string" where
  \<comment> \<open>Modelled from the spec: \<^verbatim>\<open>font_data.font_version\<close>, not among the sources, gives the
      font's human-readable version name record (name id 5, the record \<^verbatim>\<open>fix_font\<close>
      rewrites).\<close>
  "font_version f = (case names f 5 of None \<Rightarrow> Inl KeyError | Some s \<Rightarrow> Inr s)"

definition extract_version :: "font \<Rightarrow> error + string" where
  "extract_version f =
     (case font_version f of
        Inl e \<Rightarrow> Inl e
      | Inr version \<Rightarrow>
          (case version_re_match version of
             None \<Rightarrow> Inl (ExistingVersionNoMatch version)
           | Some g \<Rightarrow> Inr g))"

fun ints_of :: "string list \<Rightarrow> error + int list" where
  \<comment> \<open>\<^verbatim>\<open>[int(n) for n in parts]\<close>: the first failing conversion raises\<close>
  "ints_of [] = Inr []"
| "ints_of (p # ps) =
     (case py_int p of
        Inl e \<Rightarrow> Inl e
      | Inr n \<Rightarrow> (case ints_of ps of Inl e \<Rightarrow> Inl e | Inr ns \<Rightarrow> Inr (n # ns)))"

definition version_str_to_mm :: "string \<Rightarrow> error + int list" where
  "version_str_to_mm version = ints_of (split_on CHR ''.'' version)"

definition mm_to_version_str :: "int list \<Rightarrow> error + string" where
  \<comment> \<open>\<^verbatim>\<open>mm[0]\<close> raises IndexError on an empty list; the format takes exactly two values\<close>
  "mm_to_version_str mm =
     (case mm of
        [] \<Rightarrow> Inl IndexError
      | [a, b] \<Rightarrow> Inr (if a = 1 then fmt_d a @ ''.'' @ fmt_0d 2 b
                        else fmt_d a @ ''.'' @ fmt_0d 3 b)
      | _ \<Rightarrow> Inl TypeError)"

definition compute_version :: "string \<Rightarrow> int list \<Rightarrow> string option \<Rightarrow> error + string" where
  \<comment> \<open>lines 193 to 210 of \<^verbatim>\<open>get_new_version\<close>: no version string was passed (or
      \<^verbatim>\<open>'keep'\<close> fell through), so one is computed\<close>
  "compute_version version mm rversion =
     (if rversion \<noteq> None \<and> rversion \<noteq> Some []
      then (case version_str_to_mm (the rversion) of
              Inl e \<Rightarrow> Inl e
            | Inr n_mm \<Rightarrow>
                if length n_mm < 2 then Inl IndexError
                else if n_mm ! 1 = 999 then Inl (CannotBump (the rversion))
                else mm_to_version_str (n_mm[1 := n_mm ! 1 + 1]))
      else if mm = [] then Inl IndexError
      else if mm ! 0 = 2 then Inr ''2.040''
      else if mm ! 0 < 2 then Inr ''2.000''
      else Inl (OldVersionTooHigh version))"

definition get_new_version ::
    "font \<Rightarrow> font option \<Rightarrow> string option \<Rightarrow> world \<Rightarrow> (error + string) \<times> world" where
  "get_new_version fnt relfont nversion w =
     (case extract_version fnt of
        Inl e \<Rightarrow> (Inl e, w)
      | Inr version \<Rightarrow>
     (case (case relfont of
              None \<Rightarrow> Inr None
            | Some rf \<Rightarrow> (case extract_version rf of Inl e \<Rightarrow> Inl e | Inr rv \<Rightarrow> Inr (Some rv))) of
        Inl e \<Rightarrow> (Inl e, w)
      | Inr rversion \<Rightarrow>
     (let w1 = (if rversion \<noteq> None \<and> rversion \<noteq> Some []
                then print (''Existing release version: '' @ the rversion) w else w)
      in case version_str_to_mm version of
           Inl e \<Rightarrow> (Inl e, w1)
         | Inr mm \<Rightarrow>
     (case nversion of
        None \<Rightarrow> (compute_version version mm rversion, w1)
      | Some nv \<Rightarrow>
          if nv = ''keep''
          then (case rversion of
                  Some rv \<Rightarrow> (Inr rv, w1)
                | None \<Rightarrow> (compute_version version mm rversion, w1))
          else (case version_str_to_mm nv of
                  Inl e \<Rightarrow> (Inl e, w1)
                | Inr n_mm \<Rightarrow>
                    (case rversion of
                       Some rv \<Rightarrow>
                         (case version_str_to_mm rv of
                            Inl e \<Rightarrow> (Inl e, w1)
                          | Inr r_mm \<Rightarrow>
                              if list_lt n_mm r_mm then (Inl (NewBelowRelease nv rv), w1)
                              else (Inr nv, w1))
                     | None \<Rightarrow>
                         if list_lt n_mm mm then (Inl (NewBelowOld nv version), w1)
                         else (Inr nv, w1)))))))"

section \<open>Checks of the command-line values\<close>

definition at_end :: "string \<Rightarrow> bool" where
  \<comment> \<open>\<^verbatim>\<open>$\<close> of a pattern compiled without flags: the end of the string, or just before a
      newline that ends the string\<close>
  "at_end r = (r = [] \<or> r = [CHR 0x0A])"

definition new_version_re_match :: "string \<Rightarrow> bool" where
  \<comment> \<open>\<^verbatim>\<open>_new_version_re.match(s)\<close> for \<^verbatim>\<open>r'^(?:keep|[12]\.\d{3})$'\<close>\<close>
  "new_version_re_match s =
     ((case strip_prefix ''keep'' s of Some r \<Rightarrow> at_end r | None \<Rightarrow> False) \<or>
      (case s of
         a # b # c # d # e # r \<Rightarrow>
           (a = CHR ''1'' \<or> a = CHR ''2'') \<and> b = CHR ''.'' \<and>
           is_digit c \<and> is_digit d \<and> is_digit e \<and> at_end r
       | _ \<Rightarrow> False))"

definition check_version :: "string option \<Rightarrow> error + unit" where
  "check_version version =
     (if version = None \<or> new_version_re_match (the version) then Inr ()
      else Inl (VersionArgNoMatch (the version)))"

definition version_info_re_match ::
    "string \<Rightarrow> (string \<times> string \<times> string \<times> string) option" where
  \<comment> \<open>the four groups of \<^verbatim>\<open>_version_info_re.match(s)\<close> for
      \<^verbatim>\<open>r'GOOG;noto-fonts:(\d{4})(\d{2})(\d{2}):([0-9a-f]{12})'\<close>: a match at the start of s,
      whatever follows\<close>
  "version_info_re_match s =
     (case strip_prefix ''GOOG;noto-fonts:'' s of
        None \<Rightarrow> None
      | Some r \<Rightarrow>
          (let g1 = take 4 r; g2 = take 2 (drop 4 r); g3 = take 2 (drop 6 r);
               sep = take 1 (drop 8 r); g4 = take 12 (drop 9 r)
           in if length g1 = 4 \<and> list_all is_digit g1 \<and>
                 length g2 = 2 \<and> list_all is_digit g2 \<and>
                 length g3 = 2 \<and> list_all is_digit g3 \<and>
                 sep = '':'' \<and>
                 length g4 = 12 \<and> list_all is_hex_lower g4
              then Some (g1, g2, g3, g4) else None))"

text \<open>
  \<^verbatim>\<open>datetime.date\<close>: the constructor raises ValueError unless the year is within 1 to 9999,
  the month within 1 to 12 and the day within the month (proleptic Gregorian calendar);
  dates compare as the triples year, month, day.
\<close>

datatype date = Date (year_of: int) (month_of: int) (day_of: int)

definition is_leap :: "int \<Rightarrow> bool" where
  "is_leap y = (y mod 4 = 0 \<and> (y mod 100 \<noteq> 0 \<or> y mod 400 = 0))"

definition days_in_month :: "int \<Rightarrow> int \<Rightarrow> int" where
  "days_in_month y m =
     (if m = 2 then (if is_leap y then 29 else 28)
      else if m = 4 \<or> m = 6 \<or> m = 9 \<or> m = 11 then 30 else 31)"

definition make_date :: "int \<Rightarrow> int \<Rightarrow> int \<Rightarrow> error + date" where
  "make_date y m d =
     (if 1 \<le> y \<and> y \<le> 9999 \<and> 1 \<le> m \<and> m \<le> 12 \<and> 1 \<le> d \<and> d \<le> days_in_month y m
      then Inr (Date y m d) else Inl ValueError)"

definition date_gt :: "date \<Rightarrow> date \<Rightarrow> bool" where
  \<comment> \<open>\<^verbatim>\<open>a > b\<close> on dates\<close>
  "date_gt a b = list_lt [year_of b, month_of b, day_of b] [year_of a, month_of a, day_of a]"

definition check_version_info :: "date \<Rightarrow> string \<Rightarrow> error + unit" where
  \<comment> \<open>the first argument is what \<^verbatim>\<open>datetime.date.today()\<close> returns during the call\<close>
  "check_version_info today version_info =
     (case version_info_re_match version_info of
        None \<Rightarrow> Inl (VersionInfoNoMatch version_info)
      | Some (g1, g2, g3, commit_hash) \<Rightarrow>
     (case py_int g1 of Inl e \<Rightarrow> Inl e | Inr year \<Rightarrow>
     (case py_int g2 of Inl e \<Rightarrow> Inl e | Inr month \<Rightarrow>
     (case py_int g3 of Inl e \<Rightarrow> Inl e | Inr day \<Rightarrow>
        if 2017 \<le> year
        then (case make_date year month day of
                Inl e \<Rightarrow> Inl (NotAValidDate year month day version_info)
              | Inr encoded_date \<Rightarrow>
                  if date_gt encoded_date today
                  then Inl (AfterCurrentDate year month day version_info)
                  else Inr ())
        else Inl (TooFarInThePast version_info)))))"

section \<open>Paths and the file system\<close>

definition path_join :: "string \<Rightarrow> string \<Rightarrow> string" where
  \<comment> \<open>\<^verbatim>\<open>os.path.join(a, b)\<close> of posixpath\<close>
  "path_join a b =
     (if b \<noteq> [] \<and> hd b = CHR ''/'' then b
      else if a = [] \<or> last a = CHR ''/'' then a @ b
      else a @ ''/'' @ b)"

definition path_basename :: "string \<Rightarrow> string" where
  \<comment> \<open>\<^verbatim>\<open>os.path.basename(p)\<close>: what follows the last slash\<close>
  "path_basename p = rev (takeWhile (\<lambda>c. c \<noteq> CHR ''/'') (rev p))"

definition path_dirname :: "string \<Rightarrow> string" where
  \<comment> \<open>\<^verbatim>\<open>os.path.dirname(p)\<close>: up to the last slash, trailing slashes removed unless
      nothing else is left\<close>
  "path_dirname p =
     (let head = rev (dropWhile (\<lambda>c. c \<noteq> CHR ''/'') (rev p))
      in if head \<noteq> [] \<and> \<not> list_all (\<lambda>c. c = CHR ''/'') head
         then rev (dropWhile (\<lambda>c. c = CHR ''/'') (rev head)) else head)"

fun contains :: "string \<Rightarrow> string \<Rightarrow> bool" where
  \<comment> \<open>\<^verbatim>\<open>sub in s\<close> on strings\<close>
  "contains sub [] = (sub = [])"
| "contains sub (c # cs) = (strip_prefix sub (c # cs) \<noteq> None \<or> contains sub cs)"

fun join_with :: "string \<Rightarrow> string list \<Rightarrow> string" where
  \<comment> \<open>\<^verbatim>\<open>sep.join(xs)\<close>\<close>
  "join_with sep [] = []"
| "join_with sep [x] = x"
| "join_with sep (x # y # ys) = x @ sep @ join_with sep (y # ys)"

fun str_le :: "string \<Rightarrow> string \<Rightarrow> bool" where
  \<comment> \<open>\<^verbatim>\<open>a <= b\<close> on byte strings: by the codes of the first differing position\<close>
  "str_le [] ys = True"
| "str_le (x # xs) [] = False"
| "str_le (x # xs) (y # ys) = (if x = y then str_le xs ys else (of_char x :: nat) < of_char y)"

fun insert_sorted :: "string \<Rightarrow> string list \<Rightarrow> string list" where
  "insert_sorted x [] = [x]"
| "insert_sorted x (y # ys) = (if str_le x y then x # y # ys else y # insert_sorted x ys)"

definition sort_strings :: "string list \<Rightarrow> string list" where
  \<comment> \<open>\<^verbatim>\<open>xs.sort()\<close> on a list of byte strings\<close>
  "sort_strings xs = foldr insert_sorted xs []"

text \<open>
  What the tool takes from its environment and from modules that are not part of these
  sources: each is a parameter of the model.
\<close>

record env =
  cur_date :: date                                   \<comment> \<open>\<^verbatim>\<open>datetime.date.today()\<close>\<close>
  os_realpath :: "string \<Rightarrow> string"                   \<comment> \<open>\<^verbatim>\<open>os.path.realpath\<close>\<close>
  os_abspath :: "string \<Rightarrow> string"                    \<comment> \<open>\<^verbatim>\<open>os.path.abspath\<close>\<close>
  os_expanduser :: "string \<Rightarrow> string"                 \<comment> \<open>\<^verbatim>\<open>os.path.expanduser\<close>\<close>
  notoconfig_values :: "string \<rightharpoonup> string"             \<comment> \<open>\<^verbatim>\<open>notoconfig.values\<close>\<close>
  git_head_commit :: "string \<Rightarrow> error + (string \<times> string \<times> string)"
                                                     \<comment> \<open>\<^verbatim>\<open>tool_utils.git_head_commit\<close>\<close>
  get_noto_font :: "string \<Rightarrow> font_info option"       \<comment> \<open>\<^verbatim>\<open>noto_fonts.get_noto_font\<close>\<close>
  script_key_to_primary_script :: "string \<Rightarrow> string"  \<comment> \<open>of \<^verbatim>\<open>noto_fonts\<close>\<close>
  hinted_scripts :: "string \<rightharpoonup> string option"         \<comment> \<open>\<^verbatim>\<open>noto_data.HINTED_SCRIPTS\<close>; a code may be None\<close>
  printable_font_revision :: "font \<Rightarrow> string"         \<comment> \<open>\<^verbatim>\<open>font_data.printable_font_revision(font, 3)\<close>\<close>
  py_float :: "string \<Rightarrow> error + pyfloat"             \<comment> \<open>\<^verbatim>\<open>float(s)\<close>\<close>
  check_call_ok :: "string list \<Rightarrow> bool"              \<comment> \<open>the command exits with status 0\<close>

definition then_do ::
    "(error + 'a) \<times> world \<Rightarrow> ('a \<Rightarrow> world \<Rightarrow> (error + 'b) \<times> world) \<Rightarrow> (error + 'b) \<times> world" where
  \<comment> \<open>sequencing of statements: an exception ends the run, with the effects so far\<close>
  "then_do r k = (case r of (Inl e, w) \<Rightarrow> (Inl e, w) | (Inr x, w) \<Rightarrow> k x w)"

definition ensure_dir_exists :: "env \<Rightarrow> string \<Rightarrow> world \<Rightarrow> (error + string) \<times> world" where
  \<comment> \<open>\<^verbatim>\<open>tool_utils.ensure_dir_exists\<close>. A path that exists and is no directory is a file of
      the world; \<^verbatim>\<open>os.makedirs\<close> is recorded with the directory it is asked for.\<close>
  "ensure_dir_exists env path w =
     (let path = os_realpath env path
      in if path \<notin> w_dirs w
         then if path \<in> w_files w then (Inl (NotADirectory path), w)
              else (Inr path,
                    (emit (MakeDirs path) (print (''making '' @ [CHR 0x27] @ path @ [CHR 0x27]) w))
                      \<lparr>w_dirs := insert path (w_dirs w)\<rparr>)
         else (Inr path, w))"

definition noto_re_match :: "string \<Rightarrow> (string \<times> string) option" where
  \<comment> \<open>the groups of \<^verbatim>\<open>noto_re.match(p)\<close> for \<^verbatim>\<open>r'\[(tools|fonts|emoji|cjk)\]/(.*)'\<close>; the dot
      stops at a newline\<close>
  "noto_re_match p =
     (case filter (\<lambda>b. strip_prefix (''['' @ b @ '']/'') p \<noteq> None)
             [''tools'', ''fonts'', ''emoji'', ''cjk''] of
        [] \<Rightarrow> None
      | b # _ \<Rightarrow> Some (b, takeWhile (\<lambda>c. c \<noteq> CHR 0x0A) (the (strip_prefix (''['' @ b @ '']/'') p))))"

definition resolve_path :: "env \<Rightarrow> string \<Rightarrow> error + string option" where
  \<comment> \<open>\<^verbatim>\<open>tool_utils.resolve_path\<close> on a string\<close>
  "resolve_path env p =
     (if p = [] \<or> p = ''-'' then Inr None
      else (case (case noto_re_match p of
                    None \<Rightarrow> Inr p
                  | Some (base, rest) \<Rightarrow>
                      (case notoconfig_values env (''noto_'' @ base) of
                         None \<Rightarrow> Inl (NoConfigEntry (''noto_'' @ base))
                       | Some b \<Rightarrow> Inr (path_join b rest))) of
              Inl e \<Rightarrow> Inl e
            | Inr p1 \<Rightarrow> Inr (Some (os_realpath env (os_abspath env (os_expanduser env p1))))))"

definition load_font :: "string \<Rightarrow> world \<Rightarrow> (error + font) \<times> world" where
  \<comment> \<open>\<^verbatim>\<open>ttLib.TTFont(path)\<close>\<close>
  "load_font p w =
     (case w_fonts w p of
        None \<Rightarrow> (Inl (IOError p), emit (LoadFont p) w)
      | Some fnt \<Rightarrow> (Inr fnt, emit (LoadFont p) w))"

definition save_font :: "string \<Rightarrow> font \<Rightarrow> world \<Rightarrow> world" where
  \<comment> \<open>\<^verbatim>\<open>font.save(path)\<close>\<close>
  "save_font p fnt w =
     emit (SaveFont p) (w\<lparr>w_files := insert p (w_files w), w_fonts := (w_fonts w)(p \<mapsto> fnt)\<rparr>)"

section \<open>Version info from the repository, and the script to hint\<close>

definition date_re_match :: "string \<Rightarrow> string option" where
  \<comment> \<open>\<^verbatim>\<open>''.join(date_re.match(s).groups())\<close> for \<^verbatim>\<open>r'(\d{4})-(\d{2})-(\d{2})'\<close>\<close>
  "date_re_match s =
     (let g1 = take 4 s; g2 = take 2 (drop 5 s); g3 = take 2 (drop 8 s)
      in if length g1 = 4 \<and> list_all is_digit g1 \<and> take 1 (drop 4 s) = ''-'' \<and>
            length g2 = 2 \<and> list_all is_digit g2 \<and> take 1 (drop 7 s) = ''-'' \<and>
            length g3 = 2 \<and> list_all is_digit g3
         then Some (g1 @ g2 @ g3) else None)"

fun all_start_with :: "env \<Rightarrow> string \<Rightarrow> string list \<Rightarrow> error + bool" where
  \<comment> \<open>\<^verbatim>\<open>all(tool_utils.resolve_path(f).startswith(prefix) for f in fonts)\<close>\<close>
  "all_start_with env prefix [] = Inr True"
| "all_start_with env prefix (f # fs) =
     (case resolve_path env f of
        Inl e \<Rightarrow> Inl e
      | Inr None \<Rightarrow> Inl AttributeError
      | Inr (Some p) \<Rightarrow>
          if strip_prefix prefix p \<noteq> None then all_start_with env prefix fs else Inr False)"

definition get_version_info :: "env \<Rightarrow> string list \<Rightarrow> error + string option" where
  "get_version_info env fonts =
     (case resolve_path env ''[fonts]'' of
        Inl e \<Rightarrow> Inl e
      | Inr None \<Rightarrow> Inl TypeError
      | Inr (Some prefix) \<Rightarrow>
     (case all_start_with env prefix fonts of
        Inl e \<Rightarrow> Inl e
      | Inr ok \<Rightarrow>
          if \<not> ok then Inr None
          else (case git_head_commit env prefix of
                  Inl e \<Rightarrow> Inl e
                | Inr (commit, date, x) \<Rightarrow>
                    (case date_re_match date of
                       None \<Rightarrow> Inl (CouldNotMatchDate date)
                     | Some ymd \<Rightarrow>
                         Inr (Some (''GOOG;noto-fonts:'' @ ymd @ '':'' @ take 12 commit))))))"

definition truthy :: "string option \<Rightarrow> bool" where
  \<comment> \<open>an optional string used as a condition: neither None nor empty\<close>
  "truthy s = (s \<noteq> None \<and> s \<noteq> Some [])"

definition check_autohint :: "env \<Rightarrow> string option \<Rightarrow> error + unit" where
  "check_autohint env scr =
     (if truthy scr \<and> \<not> (the scr = ''no-script'' \<or> hinted_scripts env (the scr) \<noteq> None)
      then Inl (NotHintableScript (the scr)) else Inr ())"

definition get_font_info :: "env \<Rightarrow> string \<Rightarrow> error + font_info" where
  "get_font_info env f =
     (case get_noto_font env f of None \<Rightarrow> Inl (NotANotoFont f) | Some info \<Rightarrow> Inr info)"

definition autohint_code :: "env \<Rightarrow> string \<Rightarrow> string option \<Rightarrow> error + string option" where
  "autohint_code env f scr =
     (if scr = Some ''no-script'' then Inr scr
      else (case (if \<not> truthy scr
                  then (case get_font_info env f of
                          Inl e \<Rightarrow> Inl e
                        | Inr info \<Rightarrow> Inr (script_key_to_primary_script env (script info)))
                  else Inr (the scr)) of
              Inl e \<Rightarrow> Inl e
            | Inr s \<Rightarrow>
                Inr (case hinted_scripts env s of None \<Rightarrow> Some ''not-hinted'' | Some code \<Rightarrow> code)))"

definition str_of :: "string option \<Rightarrow> string" where
  \<comment> \<open>\<^verbatim>\<open>'%s' % x\<close> for a string or None\<close>
  "str_of x = (case x of None \<Rightarrow> ''None'' | Some s \<Rightarrow> s)"

definition autohint_font ::
    "env \<Rightarrow> string \<Rightarrow> string \<Rightarrow> string option \<Rightarrow> bool \<Rightarrow> world \<Rightarrow> (error + unit) \<times> world" where
  "autohint_font env src dst scr dry_run w =
     (case autohint_code env src scr of
        Inl e \<Rightarrow> (Inl e, w)
      | Inr code \<Rightarrow>
          if code = Some ''not-hinted''
          then (Inr (), print (''Warning: no hinting information for '' @ src @ '', script ''
                                 @ str_of scr) w)
          else if code = None
          then (Inr (), print (''Warning: unable to autohint '' @ src) w)
          else (let args = (if code = Some ''no-script''
                            then [''ttfautohint'', ''-t'', ''-W'', src, dst]
                            else [''ttfautohint'', ''-t'', ''-W'', ''-f'', the code, src, dst])
                in if dry_run
                   then (Inr (), print (''dry run would autohint:'' @ [CHR 0x0A] @ ''  ''
                                   @ [CHR 0x22] @ join_with '' '' args @ [CHR 0x22]) w)
                   else then_do (ensure_dir_exists env (path_dirname dst) w)
                          (\<lambda>hinted_dir w1.
                             if check_call_ok env args
                             then (Inr (), print (''wrote autohinted '' @ dst @ '' using '' @ the code)
                                             ((emit (CheckCall args) w1)
                                                \<lparr>w_files := insert dst (w_files w1)\<rparr>))
                             else (Inl (CalledProcessError args), emit (CheckCall args) w1))))"

section \<open>Fixing one font\<close>

definition alert_str :: "string \<Rightarrow> string \<Rightarrow> string \<Rightarrow> world \<Rightarrow> world" where
  \<comment> \<open>\<^verbatim>\<open>_alert\<close> on strings\<close>
  "alert_str val_name cur_val new_val w =
     print (''update '' @ val_name @ [CHR 0x0A] @ ''  from: '' @ [CHR 0x22] @ cur_val @ [CHR 0x22]
            @ [CHR 0x0A] @ ''    to: '' @ [CHR 0x22] @ new_val @ [CHR 0x22]) w"

definition alert_int :: "string \<Rightarrow> int \<Rightarrow> int \<Rightarrow> world \<Rightarrow> world" where
  \<comment> \<open>\<^verbatim>\<open>_alert\<close> on integers\<close>
  "alert_int val_name cur_val new_val w =
     print (''update '' @ val_name @ [CHR 0x0A] @ ''  from: '' @ fmt_wd 4 cur_val
            @ [CHR 0x0A] @ ''    to: '' @ fmt_wd 4 new_val) w"

definition alert_and_check ::
    "string \<Rightarrow> int \<Rightarrow> int \<Rightarrow> int \<Rightarrow> world \<Rightarrow> (error + unit) \<times> world" where
  "alert_and_check val_name cur_val new_val max_diff w =
     (if \<bar>cur_val - new_val\<bar> > max_diff
      then (Inl (LargeDifference val_name), alert_int val_name cur_val new_val w)
      else (Inr (), alert_int val_name cur_val new_val w))"

definition get_release_fontpath :: "string \<Rightarrow> string option \<Rightarrow> world \<Rightarrow> string option" where
  "get_release_fontpath f reldir w =
     (case reldir of
        None \<Rightarrow> None
      | Some rd \<Rightarrow>
          (let bn = path_basename f
           in if contains ''/hinted/'' f
              then (let fp = path_join (path_join rd ''hinted'') bn
                    in if fp \<in> w_files w then Some fp else None)
              else if contains ''/unhinted/'' f
              then (let fp = path_join (path_join rd ''unhinted'') bn
                    in if fp \<in> w_files w then Some fp else None)
              else (let fp = path_join rd bn
                    in if fp \<in> w_files w then Some fp
                       else (let fp2 = path_join (path_join rd ''unhinted'') bn
                             in if fp2 \<in> w_files w then Some fp2 else None))))"

definition get_release_font ::
    "string \<Rightarrow> string option \<Rightarrow> world \<Rightarrow> (error + font option) \<times> world" where
  "get_release_font f reldir w =
     (case get_release_fontpath f reldir w of
        None \<Rightarrow> (Inr None, w)
      | Some fp \<Rightarrow> then_do (load_font fp w) (\<lambda>fnt w1. (Inr (Some fnt), w1)))"

definition fix_version_fields ::
    "env \<Rightarrow> string \<Rightarrow> string \<Rightarrow> font \<Rightarrow> world \<Rightarrow> (error + font) \<times> world" where
  \<comment> \<open>lines 315 to 328 of \<^verbatim>\<open>fix_font\<close>; the expected revision is a string, so the test
      against None holds\<close>
  "fix_version_fields env version_info expected_font_revision fnt w =
     (let font_revision = printable_font_revision env fnt
      in then_do
           (if font_revision \<noteq> expected_font_revision
            then (case py_float env expected_font_revision of
                    Inl e \<Rightarrow> (Inl e, alert_str ''revision'' font_revision expected_font_revision w)
                  | Inr x \<Rightarrow> (Inr (fnt\<lparr>head_fontRevision := x\<rparr>),
                              alert_str ''revision'' font_revision expected_font_revision w))
            else (Inr fnt, w))
           (\<lambda>fnt1 w1.
              case names fnt1 5 of
                None \<Rightarrow> (Inl KeyError, w1)
              | Some name_version \<Rightarrow>
                  (let expected_version =
                         ''Version '' @ expected_font_revision @ '';'' @ version_info
                   in if name_version \<noteq> expected_version
                      then (Inr (fnt1\<lparr>names := (names fnt1)(5 \<mapsto> expected_version)\<rparr>),
                            alert_str ''version string'' name_version expected_version w1)
                      else (Inr fnt1, w1))))"

definition fix_ui_metrics ::
    "env \<Rightarrow> string \<Rightarrow> int \<Rightarrow> font \<Rightarrow> world \<Rightarrow> (error + font) \<times> world" where
  \<comment> \<open>lines 335 to 357 of \<^verbatim>\<open>fix_font\<close>; \<^verbatim>\<open>upem\<close> is the value read at line 331\<close>
  "fix_ui_metrics env f upem fnt w =
     (case get_font_info env f of
        Inl e \<Rightarrow> (Inl e, w)
      | Inr info \<Rightarrow>
          if is_UI_metrics info
          then (case (if upem = 2048 then Inr (2163, - 555)
                      else if upem = 1000 then Inr (1069, - 293)
                      else Inl (NoExpectedUIMetrics upem)) of
                  Inl e \<Rightarrow> (Inl e, w)
                | Inr (expected_ascent, expected_descent) \<Rightarrow>
                    (let font_ascent = hhea_ascent fnt; font_descent = hhea_descent fnt
                     in then_do
                          (if font_ascent \<noteq> expected_ascent
                           then then_do (alert_and_check ''ascent'' font_ascent expected_ascent 2 w)
                                  (\<lambda>u w1. (Inr (fnt\<lparr>hhea_ascent := expected_ascent,
                                                      os2_sTypoAscender := expected_ascent,
                                                      os2_usWinAscent := expected_ascent\<rparr>), w1))
                           else (Inr fnt, w))
                          (\<lambda>fnt1 w1.
                             if font_descent \<noteq> expected_descent
                             then then_do
                                    (alert_and_check ''descent'' font_descent expected_descent 2 w1)
                                    (\<lambda>u w2. (Inr (fnt1\<lparr>hhea_descent := expected_descent,
                                                         os2_sTypoDescender := expected_descent,
                                                         os2_usWinDescent := - expected_descent\<rparr>), w2))
                             else (Inr fnt1, w1))))
          else (Inr fnt, w))"

definition fix_font ::
    "env \<Rightarrow> string \<Rightarrow> string \<Rightarrow> string option \<Rightarrow> string option \<Rightarrow> string \<Rightarrow> string option
       \<Rightarrow> bool \<Rightarrow> world \<Rightarrow> (error + unit) \<times> world" where
  "fix_font env f dstdir reldir version version_info autohint dry_run w =
     then_do (load_font f (print ([CHR 0x0A] @ ''-----'' @ [CHR 0x0A] @ ''font: '' @ f) w))
       (\<lambda>fnt w1.
     then_do (get_release_font f reldir w1)
       (\<lambda>relfont w2.
     then_do (get_new_version fnt relfont version w2)
       (\<lambda>expected_font_revision w3.
     then_do (fix_version_fields env version_info expected_font_revision fnt w3)
       (\<lambda>fnt1 w4.
     (let upem = head_unitsPerEm fnt1;
          w5 = (if upem \<noteq> 2048
                then print (''expected '' @ fmt_d 2048 @ '' upem but got '' @ fmt_d upem @ '' upem'') w4
                else w4)
      in
     then_do (fix_ui_metrics env f upem fnt1 w5)
       (\<lambda>fnt2 w6.
     then_do (ensure_dir_exists env (path_join dstdir ''unhinted'') w6)
       (\<lambda>d w7.
     (let fname = path_basename f;
          udst = path_join (path_join dstdir ''unhinted'') fname;
          w8 = (if dry_run
                then print (''dry run would write:'' @ [CHR 0x0A] @ ''  '' @ [CHR 0x22] @ udst
                            @ [CHR 0x22]) w7
                else print (''wrote '' @ udst) (save_font udst fnt2 w7))
      in if truthy autohint
         then autohint_font env udst (path_join (path_join dstdir ''hinted'') fname) autohint
                dry_run w8
         else (Inr (), w8)))))))))"

fun fix_fonts ::
    "env \<Rightarrow> string list \<Rightarrow> string \<Rightarrow> string option \<Rightarrow> string option \<Rightarrow> string \<Rightarrow> string option
       \<Rightarrow> bool \<Rightarrow> world \<Rightarrow> (error + unit) \<times> world" where
  \<comment> \<open>the loop that ends \<^verbatim>\<open>autofix_fonts\<close>\<close>
  "fix_fonts env [] dstdir reldir version version_info autohint dry_run w = (Inr (), w)"
| "fix_fonts env (f # fs) dstdir reldir version version_info autohint dry_run w =
     (case fix_font env f dstdir reldir version version_info autohint dry_run w of
        (Inl e, w1) \<Rightarrow> (Inl e, w1)
      | (Inr u, w1) \<Rightarrow> fix_fonts env fs dstdir reldir version version_info autohint dry_run w1)"

definition check_step :: "error + 'a \<Rightarrow> world \<Rightarrow> (error + 'a) \<times> world" where
  \<comment> \<open>a check that has no effect: it raises or lets the run go on\<close>
  "check_step r w = (r, w)"

definition release_dir_of ::
    "env \<Rightarrow> string option \<Rightarrow> world \<Rightarrow> (error + string option) \<times> world" where
  \<comment> \<open>lines 115 to 120 of \<^verbatim>\<open>autofix_fonts\<close>; \<^verbatim>\<open>path.isdir(None)\<close> raises TypeError\<close>
  "release_dir_of env release_dir w =
     (case release_dir of
        None \<Rightarrow> (Inr None, w)
      | Some rd \<Rightarrow>
          (case resolve_path env rd of
             Inl e \<Rightarrow> (Inl e, w)
           | Inr None \<Rightarrow> (Inl TypeError, w)
           | Inr (Some reldir) \<Rightarrow>
               if reldir \<notin> w_dirs w then (Inl (ReleaseDirMissing reldir), w)
               else (Inr (Some reldir), w)))"

definition version_info_of ::
    "env \<Rightarrow> string list \<Rightarrow> string option \<Rightarrow> world \<Rightarrow> (error + string) \<times> world" where
  \<comment> \<open>lines 122 to 128 of \<^verbatim>\<open>autofix_fonts\<close>\<close>
  "version_info_of env font_names version_info w =
     (case version_info of
        None \<Rightarrow>
          (case get_version_info env font_names of
             Inl e \<Rightarrow> (Inl e, w)
           | Inr vi \<Rightarrow>
               if \<not> truthy vi then (Inl NoVersionInfo, w)
               else (Inr (the vi), print (''Computed version_info: '' @ the vi) w))
      | Some vi \<Rightarrow>
          (case check_version_info (cur_date env) vi of
             Inl e \<Rightarrow> (Inl e, w)
           | Inr u \<Rightarrow> (Inr vi, w)))"

definition autofix_fonts ::
    "env \<Rightarrow> string list \<Rightarrow> string \<Rightarrow> string option \<Rightarrow> string option \<Rightarrow> string option
       \<Rightarrow> string option \<Rightarrow> bool \<Rightarrow> world \<Rightarrow> (error + unit) \<times> world" where
  "autofix_fonts env font_names dstdir release_dir version version_info autohint dry_run w =
     then_do (ensure_dir_exists env dstdir w)
       (\<lambda>dstdir1 w1.
     then_do (release_dir_of env release_dir
                (print (''Dest dir: '' @ dstdir1)
                   (print (''Processing'' @ [CHR 0x0A] @ ''  ''
                             @ join_with ([CHR 0x0A] @ ''  '') (sort_strings font_names)) w1)))
       (\<lambda>reldir w2.
     then_do (version_info_of env (sort_strings font_names) version_info w2)
       (\<lambda>version_info1 w3.
     then_do (check_step (check_version version) w3)
       (\<lambda>u w4.
     then_do (check_step (check_autohint env autohint) w4)
       (\<lambda>u w5.
     fix_fonts env (sort_strings font_names) dstdir1 reldir version version_info1 autohint dry_run
       (if dry_run
        then print (''*** dry run '' @ (if truthy autohint then ''(autohint) '' else '''') @ ''***'') w5
        else w5))))))"

section \<open>Vocabulary of the statements\<close>

definition all_digits :: "string \<Rightarrow> bool" where
  \<comment> \<open>a non-empty string of ASCII digits, what \<^verbatim>\<open>\d+\<close> matches\<close>
  "all_digits ds = (ds \<noteq> [] \<and> list_all is_digit ds)"

definition font_with_version :: "string \<Rightarrow> font" where
  \<comment> \<open>a sample font whose version name record is the given string\<close>
  "font_with_version s =
     \<lparr>names = [5 \<mapsto> s], head_fontRevision = Float ''2.0'', head_unitsPerEm = 2048,
      hhea_ascent = 2163, hhea_descent = - 555, os2_sTypoAscender = 2163,
      os2_usWinAscent = 2163, os2_sTypoDescender = - 555, os2_usWinDescent = 555\<rparr>"

definition empty_world :: world where
  "empty_world = \<lparr>w_dirs = {}, w_files = {}, w_fonts = Map.empty, w_events = []\<rparr>"

definition canonical_version_text :: "string \<Rightarrow> string \<Rightarrow> bool" where
  \<comment> \<open>the text \<^verbatim>\<open>major.minor\<close> is what the formatting rule prints: no leading zero in major;
      when major is 1 a minor of two digits or of three digits not starting with 0,
      otherwise a minor of three digits\<close>
  "canonical_version_text major minor =
     ((major = ''0'' \<or> hd major \<noteq> CHR ''0'') \<and>
      (if nat_of_digits major = 1 then length minor = 2 \<or> hd minor \<noteq> CHR ''0''
       else length minor = 3))"

definition set_ascent :: "int \<Rightarrow> font \<Rightarrow> font" where
  \<comment> \<open>the three assignments of lines 349 to 351\<close>
  "set_ascent a fnt = fnt\<lparr>hhea_ascent := a, os2_sTypoAscender := a, os2_usWinAscent := a\<rparr>"

definition set_descent :: "int \<Rightarrow> font \<Rightarrow> font" where
  \<comment> \<open>the three assignments of lines 355 to 357\<close>
  "set_descent d fnt = fnt\<lparr>hhea_descent := d, os2_sTypoDescender := d, os2_usWinDescent := - d\<rparr>"

definition sample_env :: env where
  \<comment> \<open>a sample environment: paths resolve to themselves, every font is a UI font of
      Latin script, the commands succeed\<close>
  "sample_env =
     \<lparr>cur_date = Date 2017 3 1,
      os_realpath = (\<lambda>p. p), os_abspath = (\<lambda>p. p), os_expanduser = (\<lambda>p. p),
      notoconfig_values = Map.empty,
      git_head_commit = (\<lambda>p. Inr (''a8a215d2e889f0'', ''2017-02-20 10:00:00'', '''')),
      get_noto_font = (\<lambda>f. Some \<lparr>is_UI_metrics = True, script = ''Latn''\<rparr>),
      script_key_to_primary_script = (\<lambda>s. s),
      hinted_scripts = [''Latn'' \<mapsto> Some ''latn''],
      printable_font_revision = (\<lambda>fnt. ''2.000''),
      py_float = (\<lambda>s. Inr (Float s)),
      check_call_ok = (\<lambda>args. True)\<rparr>"

definition sample_font :: "int \<Rightarrow> int \<Rightarrow> font" where
  \<comment> \<open>a sample font at 2048 units per em with the given ascent and descent\<close>
  "sample_font a d =
     \<lparr>names = [5 \<mapsto> ''Version 2.000''], head_fontRevision = Float ''2.0'', head_unitsPerEm = 2048,
      hhea_ascent = a, hhea_descent = d, os2_sTypoAscender = a,
      os2_usWinAscent = a, os2_sTypoDescender = d, os2_usWinDescent = - d\<rparr>"

definition touches_font :: "event \<Rightarrow> bool" where
  \<comment> \<open>the effects of processing a font: opening one, writing one, running the hinter\<close>
  "touches_font ev =
     (case ev of LoadFont p \<Rightarrow> True | SaveFont p \<Rightarrow> True | CheckCall args \<Rightarrow> True | _ \<Rightarrow> False)"

definition font_events :: "world \<Rightarrow> event list" where
  \<comment> \<open>those effects of a run so far, in order\<close>
  "font_events w = filter touches_font (w_events w)"

definition sample_world :: "string set \<Rightarrow> world" where
  \<comment> \<open>a sample world: the given directories, and one font file in the current directory\<close>
  "sample_world dirs =
     \<lparr>w_dirs = dirs, w_files = {''NotoSansUI-Regular.ttf''},
      w_fonts = [''NotoSansUI-Regular.ttf'' \<mapsto> sample_font 2163 (- 555)], w_events = []\<rparr>"

definition dry_run_sample :: "(error + unit) \<times> world" where
  \<comment> \<open>a dry run on one font, into a destination directory that does not exist yet\<close>
  "dry_run_sample =
     autofix_fonts sample_env [''NotoSansUI-Regular.ttf''] ''out'' None None
       (Some ''GOOG;noto-fonts:20170220:a8a215d2e889'') None True (sample_world {})"

section \<open>Decimal numerals: parsing and printing are inverse\<close>

lemma lt10_cases: "(d::nat) < 10 \<Longrightarrow>
   d = 0 \<or> d = 1 \<or> d = 2 \<or> d = 3 \<or> d = 4 \<or> d = 5 \<or> d = 6 \<or> d = 7 \<or> d = 8 \<or> d = 9"
  by arith

lemma is_digit_digit_char: "d < 10 \<Longrightarrow> is_digit (digit_char d)"
  by (drule lt10_cases) (auto simp: is_digit_def digit_char_def)

lemma digit_val_char: "d < 10 \<Longrightarrow> digit_val (digit_char d) = d"
  by (drule lt10_cases) (auto simp: digit_val_def digit_char_def)

lemma digit_char_val: "is_digit c \<Longrightarrow> digit_char (digit_val c) = c"
  unfolding is_digit_def digit_char_def digit_val_def by auto

lemma digit_val_lt: "is_digit c \<Longrightarrow> digit_val c < 10"
  unfolding is_digit_def digit_val_def by auto

lemma digit_val_zero: "is_digit c \<Longrightarrow> digit_val c = 0 \<longleftrightarrow> c = CHR ''0''"
  unfolding is_digit_def digit_val_def by auto

lemma nat_of_digits_snoc: "nat_of_digits (ds @ [c]) = 10 * nat_of_digits ds + digit_val c"
  by (simp add: nat_of_digits_def)

lemma nat_of_digits_Nil: "nat_of_digits [] = 0"
  by (simp add: nat_of_digits_def)

lemma nat_of_digits_single: "nat_of_digits [c] = digit_val c"
  by (simp add: nat_of_digits_def)

lemma nat_of_digits_of: "nat_of_digits (digits_of n) = n"
proof (induction n rule: digits_of.induct)
  case (1 n)
  show ?case
  proof (cases "n < 10")
    case True
    then show ?thesis
      by (simp add: digits_of.simps [of n] nat_of_digits_single digit_val_char)
  next
    case False
    with 1 have "nat_of_digits (digits_of (n div 10)) = n div 10" by simp
    with False show ?thesis
      by (simp add: digits_of.simps [of n] nat_of_digits_snoc digit_val_char)
  qed
qed

lemma digits_of_digits: "c \<in> set (digits_of n) \<Longrightarrow> is_digit c"
proof (induction n rule: digits_of.induct)
  case (1 n)
  then show ?case
    by (cases "n < 10") (auto simp: digits_of.simps [of n] is_digit_digit_char)
qed

lemma digits_of_nonempty: "digits_of n \<noteq> []"
  by (subst digits_of.simps) simp

lemma digits_of_snoc: "digits_of (10 * m + d) = (if m = 0 then [] else digits_of m) @ [digit_char d]" if "d < 10"
proof (cases "m = 0")
  case True
  with that show ?thesis by (subst digits_of.simps) simp
next
  case False
  with that show ?thesis by (subst digits_of.simps) simp
qed

lemma digits_of_nat_of_digits:
  assumes "ds \<noteq> []" "\<forall>c \<in> set ds. is_digit c" "hd ds \<noteq> CHR ''0'' \<or> ds = ''0''"
  shows "digits_of (nat_of_digits ds) = ds"
  using assms
proof (induction ds rule: rev_induct)
  case Nil
  then show ?case by simp
next
  case (snoc c ds)
  have dc: "is_digit c" using snoc.prems by simp
  show ?case
  proof (cases "ds = []")
    case True
    then show ?thesis using dc
      by (simp add: nat_of_digits_single digits_of.simps [of "digit_val c"] digit_val_lt digit_char_val)
  next
    case False
    with snoc.prems have h: "hd ds \<noteq> CHR ''0''" by (cases ds) auto
    with snoc.prems False have ih: "digits_of (nat_of_digits ds) = ds"
      using snoc.IH by auto
    have "nat_of_digits ds \<noteq> 0"
    proof
      assume z: "nat_of_digits ds = 0"
      with ih have "ds = digits_of 0" by simp
      then have "ds = ''0''" by (simp add: digits_of.simps [of 0] digit_char_def)
      with h show False by simp
    qed
    then show ?thesis using dc ih
      by (simp add: nat_of_digits_snoc digits_of_snoc digit_val_lt digit_char_val)
  qed
qed

lemma nat_of_digits_zeros: "nat_of_digits (replicate k CHR ''0'' @ ds) = nat_of_digits ds"
proof (induction ds rule: rev_induct)
  case Nil
  have dv0: "digit_val CHR ''0'' = 0" by (simp add: digit_val_def)
  show ?case by (induction k) (simp_all add: nat_of_digits_def dv0)
next
  case (snoc c ds)
  then show ?case by (simp add: nat_of_digits_snoc flip: append_assoc)
qed

lemma is_digit_not_special:
  "is_digit c \<Longrightarrow> \<not> is_space c \<and> c \<noteq> CHR ''-'' \<and> c \<noteq> CHR ''+'' \<and> c \<noteq> CHR ''.''"
  unfolding is_digit_def is_space_def by auto

lemma py_int_digits:
  assumes "all_digits ds"
  shows "py_int ds = Inr (int (nat_of_digits ds))"
proof -
  from assms obtain c cs where ds: "ds = c # cs" and c: "is_digit c" and cs: "list_all is_digit cs"
    by (cases ds) (auto simp: all_digits_def)
  have tw: "takeWhile is_digit ds = ds" and dw: "dropWhile is_digit ds = []"
    using assms by (auto simp: all_digits_def list_all_iff)
  from c have sp: "dropWhile is_space ds = ds" and hd: "hd ds \<noteq> CHR ''-''" "hd ds \<noteq> CHR ''+''"
    using is_digit_not_special [of c] by (simp_all add: ds)
  have ne: "ds \<noteq> []" by (simp add: ds)
  show ?thesis
    by (simp add: py_int_def Let_def sp hd tw dw ne)
qed

lemma split_on_absent: "c \<notin> set xs \<Longrightarrow> split_on c xs = [xs]"
  by (induction xs) (auto simp: Let_def)

lemma split_on_once: "c \<notin> set xs \<Longrightarrow> c \<notin> set ys \<Longrightarrow> split_on c (xs @ c # ys) = [xs, ys]"
  by (induction xs) (auto simp: Let_def split_on_absent)

lemma all_digits_no_dot: "all_digits ds \<Longrightarrow> CHR ''.'' \<notin> set ds"
  using is_digit_not_special by (auto simp: all_digits_def list_all_iff)

lemma version_str_to_mm_digits:
  assumes "all_digits major" "all_digits minor"
  shows "version_str_to_mm (major @ ''.'' @ minor)
           = Inr [int (nat_of_digits major), int (nat_of_digits minor)]"
  using assms
  by (simp add: version_str_to_mm_def split_on_once all_digits_no_dot py_int_digits)

lemma version_re_match_form:
  assumes "version_re_match s = Some g"
  shows "\<exists>major minor. g = major @ ''.'' @ minor \<and> all_digits major \<and> all_digits minor
            \<and> (length minor = 2 \<or> length minor = 3)"
proof -
  from assms obtain r where r: "strip_prefix ''Version '' s = Some r"
    by (auto simp: version_re_match_def split: option.splits)
  define major where "major = takeWhile is_digit r"
  define r1 where "r1 = dropWhile is_digit r"
  from assms r have m: "major \<noteq> []"
    by (auto simp: version_re_match_def Let_def major_def split: if_splits)
  from assms r m obtain r2 where r1: "r1 = CHR ''.'' # r2"
    by (auto simp: version_re_match_def Let_def major_def r1_def split: if_splits list.splits)
  define minor where "minor = takeWhile is_digit (take 3 r2)"
  from assms r m r1 have g: "g = major @ ''.'' @ minor" and l: "2 \<le> length minor"
    by (auto simp: version_re_match_def Let_def major_def r1_def minor_def split: if_splits list.splits)
  have "length minor \<le> length (take 3 r2)" unfolding minor_def by (rule length_takeWhile_le)
  then have l3: "length minor \<le> 3" by simp
  have dm: "list_all is_digit major" unfolding major_def list_all_iff
    by (auto dest: set_takeWhileD)
  have dn: "list_all is_digit minor" unfolding minor_def list_all_iff
    by (auto dest: set_takeWhileD)
  from l have "minor \<noteq> []" by auto
  with g m dm dn l l3 show ?thesis
    by (intro exI [of _ major] exI [of _ minor]) (auto simp: all_digits_def)
qed

lemma nat_of_digits_bound: "list_all is_digit ds \<Longrightarrow> nat_of_digits ds < 10 ^ length ds"
proof (induction ds rule: rev_induct)
  case Nil
  show ?case by (simp add: nat_of_digits_Nil)
next
  case (snoc c ds)
  then have "nat_of_digits ds < 10 ^ length ds" and "digit_val c < 10"
    by (auto simp: digit_val_lt)
  then show ?case by (simp add: nat_of_digits_snoc)
qed

lemma extract_version_mm:
  assumes "extract_version f = Inr v"
  shows "\<exists>a b. version_str_to_mm v = Inr [a, b] \<and> 0 \<le> a \<and> 0 \<le> b \<and> b \<le> 999"
proof -
  from assms obtain s where "version_re_match s = Some v"
    by (auto simp: extract_version_def split: sum.splits option.splits)
  then obtain major minor where v: "v = major @ ''.'' @ minor" and d: "all_digits major" "all_digits minor"
    and l: "length minor = 2 \<or> length minor = 3"
    using version_re_match_form by blast
  from d(2) have "nat_of_digits minor < 10 ^ length minor"
    by (simp add: nat_of_digits_bound all_digits_def)
  with l have "nat_of_digits minor < 1000" by auto
  then have "int (nat_of_digits minor) \<le> 999" by simp
  moreover from v d have "version_str_to_mm v = Inr [int (nat_of_digits major), int (nat_of_digits minor)]"
    by (simp only: version_str_to_mm_digits)
  ultimately show ?thesis by simp
qed

lemma all_digits_digits_of: "all_digits (digits_of n)"
  by (auto simp: all_digits_def list_all_iff digits_of_nonempty digits_of_digits)

lemma is_digit_zero: "is_digit CHR ''0''"
  by (simp add: is_digit_def)

lemma all_digits_pad: "all_digits ds \<Longrightarrow> all_digits (replicate k CHR ''0'' @ ds)"
  by (auto simp: all_digits_def list_all_iff is_digit_zero)

lemma fmt_d_nonneg: "0 \<le> n \<Longrightarrow> fmt_d n = digits_of (nat n)"
  by (simp add: fmt_d_def)

lemma fmt_0d_nonneg: "0 \<le> n \<Longrightarrow> fmt_0d w n = replicate (w - length (digits_of (nat n))) CHR ''0'' @ digits_of (nat n)"
  by (simp add: fmt_0d_def Let_def)

lemma mm_to_version_str_parse:
  assumes "0 \<le> a" "0 \<le> b"
  shows "\<exists>s. mm_to_version_str [a, b] = Inr s \<and> version_str_to_mm s = Inr [a, b]"
proof -
  define w :: nat where "w = (if a = 1 then 2 else 3)"
  define minor where "minor = replicate (w - length (digits_of (nat b))) CHR ''0'' @ digits_of (nat b)"
  define X where "X = digits_of (nat a) @ ''.'' @ minor"
  have f0: "fmt_0d w b = minor"
    unfolding minor_def using assms(2) by (rule fmt_0d_nonneg)
  have fd: "fmt_d a = digits_of (nat a)"
    using assms(1) by (rule fmt_d_nonneg)
  have "mm_to_version_str [a, b] = Inr (fmt_d a @ ''.'' @ fmt_0d w b)"
    by (simp add: mm_to_version_str_def w_def)
  then have s: "mm_to_version_str [a, b] = Inr X"
    by (simp only: f0 fd X_def)
  have dm: "all_digits minor"
    unfolding minor_def by (rule all_digits_pad) (rule all_digits_digits_of)
  have "version_str_to_mm X = Inr [int (nat_of_digits (digits_of (nat a))), int (nat_of_digits minor)]"
    unfolding X_def using all_digits_digits_of dm by (rule version_str_to_mm_digits)
  moreover have "nat_of_digits minor = nat b"
    unfolding minor_def by (simp only: nat_of_digits_zeros nat_of_digits_of)
  ultimately have p: "version_str_to_mm X = Inr [a, b]"
    using assms by (simp add: nat_of_digits_of)
  show ?thesis
  proof (intro exI conjI)
    show "mm_to_version_str [a, b] = Inr X" by (rule s)
    show "version_str_to_mm X = Inr [a, b]" by (rule p)
  qed
qed

lemma extract_version_nonempty:
  assumes "extract_version f = Inr v"
  shows "v \<noteq> []"
proof -
  from assms obtain s where "version_re_match s = Some v"
    by (auto simp: extract_version_def split: sum.splits option.splits)
  then obtain major minor where "v = major @ ''.'' @ minor"
    using version_re_match_form by blast
  then show ?thesis by simp
qed

section \<open>The new version number\<close>

lemma gnv_none_rel:
  assumes "extract_version fnt = Inr version" "version_str_to_mm version = Inr mm"
  shows "fst (get_new_version fnt None None w) = compute_version version mm None"
    and "fst (get_new_version fnt None (Some ''keep'') w) = compute_version version mm None"
  using assms by (simp_all add: get_new_version_def)

lemma gnv_some_rel:
  assumes "extract_version fnt = Inr version" "version_str_to_mm version = Inr mm"
      and "extract_version rf = Inr rv"
  shows "fst (get_new_version fnt (Some rf) None w) = compute_version version mm (Some rv)"
    and "fst (get_new_version fnt (Some rf) (Some ''keep'') w) = Inr rv"
  using assms by (simp_all add: get_new_version_def Let_def)

lemma compute_version_bump:
  assumes "rv \<noteq> []" "version_str_to_mm rv = Inr [a, b]"
  shows "compute_version version mm (Some rv)
           = (if b = 999 then Inl (CannotBump rv) else mm_to_version_str [a, b + 1])"
  using assms by (simp add: compute_version_def)

lemma compute_version_derive:
  "compute_version version (major # rest) None
     = (if major = 2 then Inr ''2.040'' else if major < 2 then Inr ''2.000''
        else Inl (OldVersionTooHigh version))"
  by (simp add: compute_version_def)

lemma gnv_explicit:
  assumes "extract_version fnt = Inr version" "version_str_to_mm version = Inr mm"
      and "nv \<noteq> ''keep''" "version_str_to_mm nv = Inr n_mm"
  shows "fst (get_new_version fnt None (Some nv) w)
           = (if list_lt n_mm mm then Inl (NewBelowOld nv version) else Inr nv)"
    and "extract_version rf = Inr rv \<Longrightarrow> version_str_to_mm rv = Inr r_mm \<Longrightarrow>
         fst (get_new_version fnt (Some rf) (Some nv) w)
           = (if list_lt n_mm r_mm then Inl (NewBelowRelease nv rv) else Inr nv)"
  using assms by (simp_all add: get_new_version_def Let_def)

lemma list_lt_pair: "list_lt [a, b] [c, d] \<longleftrightarrow> a < c \<or> (a = c \<and> b < d)"
  by auto


text \<open>
  Claim C2. With an explicit requested version \<open>(n1, n2)\<close>: if a release font exists, the
  call raises \<^verbatim>\<open>new version < release version\<close> exactly when the request is below the
  released version and otherwise returns the request unchanged, whatever the current
  version is; if no release font exists, it raises \<^verbatim>\<open>new version < old version\<close> exactly
  when the request is below the current version and otherwise returns the request
  unchanged.
\<close>

theorem get_new_version_explicit_request:
  assumes cur: "extract_version fnt = Inr version" "version_str_to_mm version = Inr [c1, c2]"
      and req: "nv \<noteq> ''keep''" "version_str_to_mm nv = Inr [n1, n2]"
  shows "(\<forall>rf rv r1 r2. extract_version rf = Inr rv \<and> version_str_to_mm rv = Inr [r1, r2] \<longrightarrow>
            fst (get_new_version fnt (Some rf) (Some nv) w)
              = (if n1 < r1 \<or> (n1 = r1 \<and> n2 < r2) then Inl (NewBelowRelease nv rv) else Inr nv))
       \<and> fst (get_new_version fnt None (Some nv) w)
              = (if n1 < c1 \<or> (n1 = c1 \<and> n2 < c2) then Inl (NewBelowOld nv version) else Inr nv)"
proof (intro conjI allI impI)
  fix rf rv r1 r2
  assume "extract_version rf = Inr rv \<and> version_str_to_mm rv = Inr [r1, r2]"
  then have "extract_version rf = Inr rv" "version_str_to_mm rv = Inr [r1, r2]" by simp_all
  from gnv_explicit(2) [OF cur req this]
  show "fst (get_new_version fnt (Some rf) (Some nv) w)
              = (if n1 < r1 \<or> (n1 = r1 \<and> n2 < r2) then Inl (NewBelowRelease nv rv) else Inr nv)"
    by (simp only: list_lt_pair)
next
  from gnv_explicit(1) [OF cur req]
  show "fst (get_new_version fnt None (Some nv) w)
              = (if n1 < c1 \<or> (n1 = c1 \<and> n2 < c2) then Inl (NewBelowOld nv version) else Inr nv)"
    by (simp only: list_lt_pair)
qed

lemma gnv_keep_none: "get_new_version fnt None (Some ''keep'') w = get_new_version fnt None None w"
proof (cases "extract_version fnt")
  case (Inl e)
  then show ?thesis by (simp add: get_new_version_def)
next
  case (Inr version)
  then show ?thesis
    by (cases "version_str_to_mm version") (simp_all add: get_new_version_def)
qed

text \<open>
  Claim C3. With the directive \<^verbatim>\<open>'keep'\<close>: if a release font exists, its version string is
  returned unchanged; if none exists, the call is the same as the call with no requested
  version, in its result and in what it prints.
\<close>

theorem get_new_version_keep:
  "(extract_version fnt = Inr version \<and> extract_version rf = Inr rv \<longrightarrow>
      fst (get_new_version fnt (Some rf) (Some ''keep'') w) = Inr rv)
   \<and> get_new_version fnt None (Some ''keep'') w = get_new_version fnt None None w"
proof (intro conjI impI)
  assume h: "extract_version fnt = Inr version \<and> extract_version rf = Inr rv"
  then have e1: "extract_version fnt = Inr version" and e2: "extract_version rf = Inr rv" by simp_all
  from extract_version_mm [OF e1] obtain a b where "version_str_to_mm version = Inr [a, b]" by blast
  from gnv_some_rel(2) [OF e1 this e2]
  show "fst (get_new_version fnt (Some rf) (Some ''keep'') w) = Inr rv" .
next
  show "get_new_version fnt None (Some ''keep'') w = get_new_version fnt None None w"
    by (rule gnv_keep_none)
qed

subsection \<open>The three cases on sample fonts\<close>

lemma extract_version_sample:
  "extract_version (font_with_version ''Version 1.03'') = Inr ''1.03''"
  "extract_version (font_with_version ''Version 2.041'') = Inr ''2.041''"
  "extract_version (font_with_version ''Version 2.050'') = Inr ''2.050''"
  by (simp_all add: extract_version_def font_version_def font_with_version_def
        version_re_match_def is_digit_def)

lemma version_str_to_mm_sample:
  "version_str_to_mm ''1.03'' = Inr [1, 3]"
  "version_str_to_mm ''2.041'' = Inr [2, 41]"
  "version_str_to_mm ''2.050'' = Inr [2, 50]"
  "version_str_to_mm ''2.040'' = Inr [2, 40]"
  "version_str_to_mm ''2.045'' = Inr [2, 45]"
  by (simp_all add: version_str_to_mm_def py_int_def is_space_def is_digit_def
        nat_of_digits_def digit_val_def Let_def)


theorem get_new_version_explicit_request_witness:
  "fst (get_new_version (font_with_version ''Version 2.050'')
          (Some (font_with_version ''Version 2.041'')) (Some ''2.045'') empty_world)
     = Inr ''2.045''
   \<and> fst (get_new_version (font_with_version ''Version 2.050'') None (Some ''2.045'') empty_world)
     = Inl (NewBelowOld ''2.045'' ''2.050'')"
proof -
  have nk: "''2.045'' \<noteq> ''keep''" by simp
  note t = get_new_version_explicit_request
      [OF extract_version_sample(3) version_str_to_mm_sample(3) nk version_str_to_mm_sample(5),
       of empty_world]
  from t extract_version_sample(2) version_str_to_mm_sample(2)
  have "fst (get_new_version (font_with_version ''Version 2.050'')
          (Some (font_with_version ''Version 2.041'')) (Some ''2.045'') empty_world)
     = Inr ''2.045''"
    by fastforce
  moreover from t
  have "fst (get_new_version (font_with_version ''Version 2.050'') None (Some ''2.045'') empty_world)
     = Inl (NewBelowOld ''2.045'' ''2.050'')"
    by simp
  ultimately show ?thesis by blast
qed

theorem get_new_version_keep_witness:
  "fst (get_new_version (font_with_version ''Version 2.050'')
          (Some (font_with_version ''Version 2.041'')) (Some ''keep'') empty_world)
     = Inr ''2.041''"
  using get_new_version_keep [of "font_with_version ''Version 2.050''" "''2.050''"
          "font_with_version ''Version 2.041''" "''2.041''" empty_world]
        extract_version_sample(2,3)
  by simp

subsection \<open>Monotonicity\<close>

lemma gnv_release_extracts:
  assumes "fst (get_new_version fnt (Some rf) nversion w) = Inr s"
  shows "\<exists>rv. extract_version rf = Inr rv"
proof (cases "extract_version rf")
  case (Inr rv)
  then show ?thesis by blast
next
  case (Inl e)
  with assms show ?thesis
    by (cases "extract_version fnt") (simp_all add: get_new_version_def)
qed

lemma gnv_explicit_returns:
  assumes cur: "extract_version fnt = Inr version" "version_str_to_mm version = Inr mm"
      and nk: "nv \<noteq> ''keep''"
      and ret: "fst (get_new_version fnt relfont (Some nv) w) = Inr s"
  shows "s = nv \<and> (\<exists>n_mm. version_str_to_mm nv = Inr n_mm \<and>
           (relfont = None \<longrightarrow> \<not> list_lt n_mm mm) \<and>
           (\<forall>rf rv r_mm. relfont = Some rf \<and> extract_version rf = Inr rv
               \<and> version_str_to_mm rv = Inr r_mm \<longrightarrow> \<not> list_lt n_mm r_mm))"
proof -
  have "\<exists>n_mm. version_str_to_mm nv = Inr n_mm"
  proof (cases "version_str_to_mm nv")
    case (Inr x)
    then show ?thesis by blast
  next
    case (Inl e)
    have False
    proof (cases relfont)
      case None
      with cur nk ret Inl show False by (simp add: get_new_version_def Let_def)
    next
      case (Some rf)
      with ret obtain rv where "extract_version rf = Inr rv"
        using gnv_release_extracts by blast
      with cur nk ret Inl Some show False by (simp add: get_new_version_def Let_def)
    qed
    then show ?thesis ..
  qed
  then obtain n_mm where n: "version_str_to_mm nv = Inr n_mm" by blast
  show ?thesis
  proof (cases relfont)
    case None
    from gnv_explicit(1) [OF cur nk n, of w] ret None
    have "s = nv \<and> \<not> list_lt n_mm mm" by (simp split: if_splits)
    with n None show ?thesis by simp
  next
    case (Some rf)
    with ret obtain rv where rv: "extract_version rf = Inr rv"
      using gnv_release_extracts by blast
    from extract_version_mm [OF rv] obtain a b where r: "version_str_to_mm rv = Inr [a, b]"
      by blast
    from gnv_explicit(2) [OF cur nk n rv r, of w] ret Some
    have "s = nv \<and> \<not> list_lt n_mm [a, b]" by (simp split: if_splits)
    with n rv r Some show ?thesis by simp
  qed
qed

lemma list_lt_irrefl: "\<not> list_lt xs xs"
  by (induction xs) simp_all

text \<open>
  Claim C4, as amended. Whenever \<^verbatim>\<open>get_new_version\<close> returns a version, the returned
  string reads back as a version that is not below the released version when a release
  font exists (it may be below the current version), and that is not below the current
  version when no release font exists, except when no explicit version was requested and
  the current version is 2.x with x above 40: then the fixed \<^verbatim>\<open>'2.040'\<close> is returned.
\<close>

theorem get_new_version_not_below:
  assumes ret: "fst (get_new_version fnt relfont nversion w) = Inr s"
      and cur: "extract_version fnt = Inr version" "version_str_to_mm version = Inr mm"
  shows "\<exists>res. version_str_to_mm s = Inr res \<and>
           (\<forall>rf rv r_mm. relfont = Some rf \<and> extract_version rf = Inr rv
               \<and> version_str_to_mm rv = Inr r_mm \<longrightarrow> \<not> list_lt res r_mm) \<and>
           (relfont = None \<and> list_lt res mm \<longrightarrow>
               (nversion = None \<or> nversion = Some ''keep'') \<and> s = ''2.040''
               \<and> (\<exists>x. mm = [2, x] \<and> 40 < x))"
proof -
  from extract_version_mm [OF cur(1)] cur(2) obtain c1 c2 where mm: "mm = [c1, c2]"
    by auto
  have p40: "version_str_to_mm ''2.040'' = Inr [2, 40]" and p00: "version_str_to_mm ''2.000'' = Inr [2, 0]"
    by (simp_all add: version_str_to_mm_def py_int_def is_space_def is_digit_def
        nat_of_digits_def digit_val_def Let_def)
  consider (explicit) nv where "nversion = Some nv" "nv \<noteq> ''keep''"
    | (derive) "nversion = None \<or> nversion = Some ''keep''" "relfont = None"
    | (bump) rf where "nversion = None" "relfont = Some rf"
    | (keep) rf where "nversion = Some ''keep''" "relfont = Some rf"
    by (cases nversion; cases relfont) auto
  then show ?thesis
  proof cases
    case explicit
    from gnv_explicit_returns [OF cur explicit(2) ret [unfolded explicit(1)]]
    show ?thesis by auto
  next
    case derive
    then have "fst (get_new_version fnt relfont nversion w) = compute_version version mm None"
      using gnv_none_rel [OF cur, of w] by auto
    with ret mm have d: "(c1 = 2 \<and> s = ''2.040'') \<or> (c1 < 2 \<and> s = ''2.000'')"
      by (simp add: compute_version_derive split: if_splits)
    then show ?thesis
    proof
      assume "c1 = 2 \<and> s = ''2.040''"
      with p40 mm derive show ?thesis by auto
    next
      assume "c1 < 2 \<and> s = ''2.000''"
      with p00 mm derive show ?thesis by auto
    qed
  next
    case bump
    with ret obtain rv where rv: "extract_version rf = Inr rv"
      using gnv_release_extracts by blast
    from extract_version_mm [OF rv] obtain a b where
      r: "version_str_to_mm rv = Inr [a, b]" and nn: "0 \<le> a" "0 \<le> b" by blast
    from rv have ne: "rv \<noteq> []" by (rule extract_version_nonempty)
    from gnv_some_rel(1) [OF cur rv, of w] ret bump compute_version_bump [OF ne r, of version mm]
    have b: "b \<noteq> 999" "mm_to_version_str [a, b + 1] = Inr s"
      by (simp_all split: if_splits)
    from nn have "0 \<le> b + 1" by simp
    from mm_to_version_str_parse [OF nn(1) this] b(2)
    have "version_str_to_mm s = Inr [a, b + 1]" by auto
    with rv r bump show ?thesis by auto
  next
    case keep
    with ret obtain rv where rv: "extract_version rf = Inr rv"
      using gnv_release_extracts by blast
    from extract_version_mm [OF rv] obtain a b where
      r: "version_str_to_mm rv = Inr [a, b]" by blast
    from gnv_some_rel(2) [OF cur rv, of w] ret keep have "s = rv" by simp
    with rv r keep show ?thesis by (auto simp: list_lt_irrefl)
  qed
qed

theorem get_new_version_not_below_witness:
  "\<exists>res. version_str_to_mm ''2.042'' = Inr res \<and> \<not> list_lt res [2, 41]"
proof -
  have ret: "fst (get_new_version (font_with_version ''Version 1.03'')
               (Some (font_with_version ''Version 2.041'')) None empty_world) = Inr ''2.042''"
    by code_simp
  from get_new_version_not_below [OF ret extract_version_sample(1) version_str_to_mm_sample(1)]
       extract_version_sample(2) version_str_to_mm_sample(2)
  show ?thesis by blast
qed

theorem get_new_version_below_current:
  "extract_version (font_with_version ''Version 2.050'') = Inr ''2.050''
   \<and> version_str_to_mm ''2.050'' = Inr [2, 50]
   \<and> fst (get_new_version (font_with_version ''Version 2.050'') None None empty_world)
       = Inr ''2.040''
   \<and> version_str_to_mm ''2.040'' = Inr [2, 40]
   \<and> list_lt [2, 40] [2, 50]"
  using gnv_none_rel(1) [OF extract_version_sample(3) version_str_to_mm_sample(3), of empty_world]
        extract_version_sample(3) version_str_to_mm_sample(3,4)
  by (simp add: compute_version_derive)

section \<open>Round trip of version texts\<close>

lemma digits_of_zero: "digits_of 0 = ''0''"
  by (simp add: digits_of.simps [of 0] digit_char_def)

lemma digits_of_no_leading_zero: "hd (digits_of n) \<noteq> CHR ''0'' \<or> digits_of n = ''0''"
proof (induction n rule: digits_of.induct)
  case (1 n)
  show ?case
  proof (cases "n < 10")
    case True
    from True have dn: "digits_of n = [digit_char n]"
      by (simp add: digits_of.simps [of n])
    from lt10_cases [OF True] dn show ?thesis
      by (elim disjE) (simp_all add: digit_char_def)
  next
    case False
    then have nz: "n div 10 \<noteq> 0" by simp
    from False 1 have ih: "hd (digits_of (n div 10)) \<noteq> CHR ''0'' \<or> digits_of (n div 10) = ''0''"
      by simp
    have "digits_of (n div 10) \<noteq> ''0''"
    proof
      assume "digits_of (n div 10) = ''0''"
      then have "nat_of_digits (digits_of (n div 10)) = nat_of_digits ''0''" by simp
      moreover have "nat_of_digits ''0'' = 0" by (simp add: nat_of_digits_def digit_val_def)
      ultimately have "n div 10 = 0" by (simp only: nat_of_digits_of)
      with nz show False by simp
    qed
    with ih have "hd (digits_of (n div 10)) \<noteq> CHR ''0''" by simp
    with False show ?thesis
      by (simp add: digits_of.simps [of n] digits_of_nonempty)
  qed
qed

lemma nat_of_digits_Cons_zero: "nat_of_digits (CHR ''0'' # ds) = nat_of_digits ds"
  using nat_of_digits_zeros [of 1 ds] by simp

lemma pad_digits:
  assumes "ds \<noteq> []" "list_all is_digit ds"
  shows "replicate (length ds - length (digits_of (nat_of_digits ds))) CHR ''0''
           @ digits_of (nat_of_digits ds) = ds"
  using assms
proof (induction ds)
  case Nil
  then show ?case by simp
next
  case (Cons c cs)
  show ?case
  proof (cases "c = CHR ''0''")
    case False
    with Cons.prems have "digits_of (nat_of_digits (c # cs)) = c # cs"
      by (intro digits_of_nat_of_digits) (simp_all add: list_all_iff)
    then show ?thesis by simp
  next
    case True
    show ?thesis
    proof (cases "cs = []")
      case True
      with \<open>c = CHR ''0''\<close> show ?thesis
        by (simp add: nat_of_digits_def digit_val_def digits_of_zero)
    next
      case False
      let ?D = "digits_of (nat_of_digits cs)"
      from False Cons have ih: "replicate (length cs - length ?D) CHR ''0'' @ ?D = cs"
        by simp
      then have "length (replicate (length cs - length ?D) CHR ''0'' @ ?D) = length cs"
        by simp
      then have le: "length ?D \<le> length cs" by simp
      then have "Suc (length cs) - length ?D = Suc (length cs - length ?D)" by simp
      with ih True show ?thesis
        by (simp add: nat_of_digits_Cons_zero)
    qed
  qed
qed

lemma digits_of_length_le:
  assumes "ds \<noteq> []" "list_all is_digit ds"
  shows "length (digits_of (nat_of_digits ds)) \<le> length ds"
proof -
  have "length (replicate (length ds - length (digits_of (nat_of_digits ds))) CHR ''0''
           @ digits_of (nat_of_digits ds)) = length ds"
    using pad_digits [OF assms] by simp
  then show ?thesis by simp
qed

lemma append_sep_eq:
  "(c::char) \<notin> set xs \<Longrightarrow> c \<notin> set xs' \<Longrightarrow>
     xs @ c # ys = xs' @ c # ys' \<longleftrightarrow> xs = xs' \<and> ys = ys'"
proof (induction xs arbitrary: xs')
  case Nil
  then show ?case by (cases xs') auto
next
  case (Cons x xs)
  then show ?case by (cases xs') auto
qed

lemma digits_of_fixed_iff:
  assumes "all_digits ds"
  shows "digits_of (nat_of_digits ds) = ds \<longleftrightarrow> ds = ''0'' \<or> hd ds \<noteq> CHR ''0''"
proof
  assume "digits_of (nat_of_digits ds) = ds"
  with digits_of_no_leading_zero [of "nat_of_digits ds"] show "ds = ''0'' \<or> hd ds \<noteq> CHR ''0''"
    by auto
next
  assume "ds = ''0'' \<or> hd ds \<noteq> CHR ''0''"
  with assms show "digits_of (nat_of_digits ds) = ds"
    by (intro digits_of_nat_of_digits) (auto simp: all_digits_def list_all_iff)
qed

lemma fmt_0d_fixed_iff:
  assumes d: "all_digits minor" and l: "length minor = 2 \<or> length minor = 3"
      and w: "w = 2 \<or> w = 3"
  shows "fmt_0d w (int (nat_of_digits minor)) = minor
           \<longleftrightarrow> (if w = 2 then length minor = 2 \<or> hd minor \<noteq> CHR ''0'' else length minor = 3)"
proof -
  let ?D = "digits_of (nat_of_digits minor)"
  from d have ne: "minor \<noteq> []" and ld: "list_all is_digit minor" by (simp_all add: all_digits_def)
  have pad: "replicate (length minor - length ?D) CHR ''0'' @ ?D = minor"
    by (rule pad_digits [OF ne ld])
  have le: "length ?D \<le> length minor" by (rule digits_of_length_le [OF ne ld])
  have f: "fmt_0d w (int (nat_of_digits minor)) = replicate (w - length ?D) CHR ''0'' @ ?D"
    by (simp add: fmt_0d_nonneg)
  have "fmt_0d w (int (nat_of_digits minor)) = minor
          \<longleftrightarrow> replicate (w - length ?D) CHR ''0'' @ ?D
               = replicate (length minor - length ?D) CHR ''0'' @ ?D"
    unfolding f using pad by simp
  also have "\<dots> \<longleftrightarrow> w - length ?D = length minor - length ?D"
    by (metis append_same_eq length_replicate)
  finally have k: "fmt_0d w (int (nat_of_digits minor)) = minor
          \<longleftrightarrow> w - length ?D = length minor - length ?D" .
  have h: "hd minor \<noteq> CHR ''0'' \<longleftrightarrow> length ?D = 3" if l3: "length minor = 3"
  proof
    assume "hd minor \<noteq> CHR ''0''"
    then have "?D = minor" using d digits_of_fixed_iff by blast
    with l3 show "length ?D = 3" by simp
  next
    assume l: "length ?D = 3"
    with pad l3 have e: "?D = minor" by simp
    from l have "?D \<noteq> ''0''" by auto
    with digits_of_no_leading_zero [of "nat_of_digits minor"] e show "hd minor \<noteq> CHR ''0''"
      by simp
  qed
  from l w le h show ?thesis unfolding k by (elim disjE) auto
qed

text \<open>
  Claim C5, as amended. For every text \<^verbatim>\<open>major.minor\<close> whose minor has two or three digits
  (every text the version pattern accepts), formatting the parsed version gives the text
  back if and only if the text is canonical: major has no leading zero, and minor has
  three digits when major is not 1, and two digits or three digits not starting with 0
  when major is 1.
\<close>

theorem version_round_trip_iff_canonical:
  assumes dm: "all_digits major" and dn: "all_digits minor"
      and l: "length minor = 2 \<or> length minor = 3"
  shows "(\<exists>mm. version_str_to_mm (major @ ''.'' @ minor) = Inr mm
             \<and> mm_to_version_str mm = Inr (major @ ''.'' @ minor))
         \<longleftrightarrow> canonical_version_text major minor"
proof -
  define A where "A = nat_of_digits major"
  define B where "B = nat_of_digits minor"
  define w :: nat where "w = (if int A = 1 then 2 else 3)"
  have p: "version_str_to_mm (major @ ''.'' @ minor) = Inr [int A, int B]"
    unfolding A_def B_def by (rule version_str_to_mm_digits [OF dm dn])
  have f: "mm_to_version_str [int A, int B] = Inr (digits_of A @ ''.'' @ fmt_0d w (int B))"
    by (simp add: mm_to_version_str_def fmt_d_nonneg w_def)
  have nd: "CHR ''.'' \<notin> set (digits_of A)" "CHR ''.'' \<notin> set major"
    using all_digits_no_dot [OF all_digits_digits_of] all_digits_no_dot [OF dm] by simp_all
  have w23: "w = 2 \<or> w = 3" by (simp add: w_def)
  have "(\<exists>mm. version_str_to_mm (major @ ''.'' @ minor) = Inr mm
             \<and> mm_to_version_str mm = Inr (major @ ''.'' @ minor))
        \<longleftrightarrow> mm_to_version_str [int A, int B] = Inr (major @ ''.'' @ minor)"
    unfolding p by auto
  also have "\<dots> \<longleftrightarrow> digits_of A @ CHR ''.'' # fmt_0d w (int B) = major @ CHR ''.'' # minor"
    unfolding f by simp
  also have "\<dots> \<longleftrightarrow> digits_of A = major \<and> fmt_0d w (int B) = minor"
    by (rule append_sep_eq [OF nd])
  also have "\<dots> \<longleftrightarrow> (major = ''0'' \<or> hd major \<noteq> CHR ''0'')
        \<and> (if w = 2 then length minor = 2 \<or> hd minor \<noteq> CHR ''0'' else length minor = 3)"
    unfolding A_def B_def
    by (simp only: digits_of_fixed_iff [OF dm] fmt_0d_fixed_iff [OF dn l w23])
  also have "\<dots> \<longleftrightarrow> canonical_version_text major minor"
    by (simp add: canonical_version_text_def w_def A_def)
  finally show ?thesis .
qed

theorem version_round_trip_iff_canonical_witness:
  "(\<exists>mm. version_str_to_mm ''2.040'' = Inr mm \<and> mm_to_version_str mm = Inr ''2.040'')
   \<and> \<not> (\<exists>mm. version_str_to_mm ''1.005'' = Inr mm \<and> mm_to_version_str mm = Inr ''1.005'')"
proof -
  have d: "all_digits ''2''" "all_digits ''040''" "all_digits ''1''" "all_digits ''005''"
    by (simp_all add: all_digits_def is_digit_def)
  have c: "canonical_version_text ''2'' ''040''" "\<not> canonical_version_text ''1'' ''005''"
    by (simp_all add: canonical_version_text_def nat_of_digits_def digit_val_def)
  from version_round_trip_iff_canonical [OF d(1,2)] version_round_trip_iff_canonical [OF d(3,4)] c
  show ?thesis by simp
qed

theorem version_round_trip_fails:
  "version_re_match ''Version 2.04'' = Some ''2.04''
   \<and> version_str_to_mm ''2.04'' = Inr [2, 4]
   \<and> mm_to_version_str [2, 4] = Inr ''2.004''
   \<and> ''2.004'' \<noteq> ''2.04''"
  by code_simp

section \<open>The version info string\<close>

lemma strip_prefix_append: "strip_prefix p (p @ s) = Some s"
  by (induction p) simp_all

lemma version_info_re_match_form:
  assumes "length g1 = 4" "list_all is_digit g1" "length g2 = 2" "list_all is_digit g2"
    "length g3 = 2" "list_all is_digit g3" "length g4 = 12" "list_all is_hex_lower g4"
  shows "version_info_re_match (''GOOG;noto-fonts:'' @ g1 @ g2 @ g3 @ '':'' @ g4 @ rest)
           = Some (g1, g2, g3, g4)"
  unfolding version_info_re_match_def
  using assms by (simp only: strip_prefix_append option.case Let_def) simp

lemma check_version_info_form:
  fixes rest :: string
  assumes "length g1 = 4" "list_all is_digit g1" "length g2 = 2" "list_all is_digit g2"
    "length g3 = 2" "list_all is_digit g3" "length g4 = 12" "list_all is_hex_lower g4"
  defines "s \<equiv> ''GOOG;noto-fonts:'' @ g1 @ g2 @ g3 @ '':'' @ g4 @ rest"
  defines "y \<equiv> int (nat_of_digits g1)" and "m \<equiv> int (nat_of_digits g2)" and "d \<equiv> int (nat_of_digits g3)"
  shows "check_version_info today s =
           (if y < 2017 then Inl (TooFarInThePast s)
            else if \<not> (1 \<le> m \<and> m \<le> 12 \<and> 1 \<le> d \<and> d \<le> days_in_month y m)
              then Inl (NotAValidDate y m d s)
            else if date_gt (Date y m d) today then Inl (AfterCurrentDate y m d s)
            else Inr ())"
proof -
  have a: "all_digits g1" "all_digits g2" "all_digits g3"
    using assms by (auto simp: all_digits_def)
  have m: "version_info_re_match s = Some (g1, g2, g3, g4)"
    unfolding s_def using assms(1-8) by (rule version_info_re_match_form)
  have "nat_of_digits g1 < 10 ^ length g1" using assms(2) by (rule nat_of_digits_bound)
  then have y: "y \<le> 9999" using assms(1) by (simp add: y_def)
  show ?thesis
    using y by (simp add: check_version_info_def m py_int_digits a make_date_def flip: y_def m_def d_def)
qed

text \<open>
  Claim C6. Let the version info start with \<^verbatim>\<open>GOOG;noto-fonts:\<close>, four digits (the year),
  two digits (the month), two digits (the day), a colon and twelve characters of
  \<^verbatim>\<open>[0-9a-f]\<close>. The check accepts \<^verbatim>\<open>GOOG;noto-fonts:20170220:a8a215d2e889\<close> on every current
  date that is not before 2017-02-20. It fails when the year is below 2017 (``too far in
  the past''), fails when the year is at least 2017 and the date is not on the calendar
  (``not a valid date''), fails when the date is on the calendar and strictly after the
  current date, and accepts in the remaining case. The current date is whatever
  \<^verbatim>\<open>datetime.date.today()\<close> gives during the call, a parameter here. The source raises plain
  \<^verbatim>\<open>Exception\<close> at all three places.
\<close>

theorem check_version_info_dates:
  fixes rest :: string
  assumes "length g1 = 4" "list_all is_digit g1" "length g2 = 2" "list_all is_digit g2"
    "length g3 = 2" "list_all is_digit g3" "length g4 = 12" "list_all is_hex_lower g4"
  defines "s \<equiv> ''GOOG;noto-fonts:'' @ g1 @ g2 @ g3 @ '':'' @ g4 @ rest"
  defines "y \<equiv> int (nat_of_digits g1)" and "m \<equiv> int (nat_of_digits g2)" and "d \<equiv> int (nat_of_digits g3)"
  defines "on_calendar \<equiv> 1 \<le> m \<and> m \<le> 12 \<and> 1 \<le> d \<and> d \<le> days_in_month y m"
  shows "(\<not> date_gt (Date 2017 2 20) today \<longrightarrow>
            check_version_info today ''GOOG;noto-fonts:20170220:a8a215d2e889'' = Inr ())
       \<and> (y < 2017 \<longrightarrow> check_version_info today s = Inl (TooFarInThePast s))
       \<and> (2017 \<le> y \<and> \<not> on_calendar \<longrightarrow>
            check_version_info today s = Inl (NotAValidDate y m d s))
       \<and> (2017 \<le> y \<and> on_calendar \<and> date_gt (Date y m d) today \<longrightarrow>
            check_version_info today s = Inl (AfterCurrentDate y m d s))
       \<and> (2017 \<le> y \<and> on_calendar \<and> \<not> date_gt (Date y m d) today \<longrightarrow>
            check_version_info today s = Inr ())"
proof -
  have general: "check_version_info today s =
           (if y < 2017 then Inl (TooFarInThePast s)
            else if \<not> on_calendar then Inl (NotAValidDate y m d s)
            else if date_gt (Date y m d) today then Inl (AfterCurrentDate y m d s)
            else Inr ())"
    unfolding s_def y_def m_def d_def on_calendar_def
    using assms(1-8) by (rule check_version_info_form)
  have fields: "nat_of_digits ''2017'' = 2017" "nat_of_digits ''02'' = 2" "nat_of_digits ''20'' = 20"
    by (simp_all add: nat_of_digits_def digit_val_def)
  have sample: "check_version_info today
        (''GOOG;noto-fonts:'' @ ''2017'' @ ''02'' @ ''20'' @ '':'' @ ''a8a215d2e889'' @ [])
      = (if date_gt (Date 2017 2 20) today
         then Inl (AfterCurrentDate 2017 2 20 ''GOOG;noto-fonts:20170220:a8a215d2e889'') else Inr ())"
    by (subst check_version_info_form)
       (simp_all add: is_digit_def is_hex_lower_def fields days_in_month_def)
  then have "\<not> date_gt (Date 2017 2 20) today \<longrightarrow>
            check_version_info today ''GOOG;noto-fonts:20170220:a8a215d2e889'' = Inr ()"
    by simp
  with general show ?thesis by simp
qed

theorem check_version_info_dates_witness:
  "check_version_info (Date 2017 2 20) ''GOOG;noto-fonts:20170220:a8a215d2e889'' = Inr ()
   \<and> check_version_info (Date 2026 11 4) ''GOOG;noto-fonts:20160220:a8a215d2e889''
       = Inl (TooFarInThePast ''GOOG;noto-fonts:20160220:a8a215d2e889'')
   \<and> check_version_info (Date 2026 11 4) ''GOOG;noto-fonts:20171320:a8a215d2e889''
       = Inl (NotAValidDate 2017 13 20 ''GOOG;noto-fonts:20171320:a8a215d2e889'')
   \<and> check_version_info (Date 2017 2 19) ''GOOG;noto-fonts:20170220:a8a215d2e889''
       = Inl (AfterCurrentDate 2017 2 20 ''GOOG;noto-fonts:20170220:a8a215d2e889'')"
  using check_version_info_dates [of "''2016''" "''02''" "''20''" "''a8a215d2e889''" "Date 2017 2 20" "[]"]
        check_version_info_dates [of "''2016''" "''02''" "''20''" "''a8a215d2e889''" "Date 2026 11 4" "[]"]
        check_version_info_dates [of "''2017''" "''13''" "''20''" "''a8a215d2e889''" "Date 2026 11 4" "[]"]
        check_version_info_dates [of "''2017''" "''02''" "''20''" "''a8a215d2e889''" "Date 2017 2 19" "[]"]
  by (simp add: is_digit_def is_hex_lower_def nat_of_digits_def digit_val_def days_in_month_def
        date_gt_def)

section \<open>Vertical metrics of UI fonts\<close>

lemma fix_ui_metrics_reconcile:
  assumes "get_noto_font env f = Some info" "is_UI_metrics info"
    and "upem = 2048 \<and> ea = 2163 \<and> ed = - 555 \<or> upem = 1000 \<and> ea = 1069 \<and> ed = - 293"
  shows "fix_ui_metrics env f upem fnt w =
     (let a = hhea_ascent fnt; d = hhea_descent fnt;
          w1 = (if a \<noteq> ea then alert_int ''ascent'' a ea w else w);
          w2 = (if d \<noteq> ed then alert_int ''descent'' d ed w1 else w1);
          fnt1 = (if a \<noteq> ea then set_ascent ea fnt else fnt)
      in if \<bar>a - ea\<bar> > 2 then (Inl (LargeDifference ''ascent''), w1)
         else if \<bar>d - ed\<bar> > 2 then (Inl (LargeDifference ''descent''), w2)
         else (Inr (if d \<noteq> ed then set_descent ed fnt1 else fnt1), w2))"
proof -
  have body: "fix_ui_metrics env f upem fnt w =
      then_do
        (if hhea_ascent fnt \<noteq> ea
         then then_do (alert_and_check ''ascent'' (hhea_ascent fnt) ea 2 w)
                (\<lambda>u w1. (Inr (set_ascent ea fnt), w1))
         else (Inr fnt, w))
        (\<lambda>fnt1 w1.
           if hhea_descent fnt \<noteq> ed
           then then_do (alert_and_check ''descent'' (hhea_descent fnt) ed 2 w1)
                  (\<lambda>u w2. (Inr (set_descent ed fnt1), w2))
           else (Inr fnt1, w1))"
    using assms
    by (elim disjE conjE; hypsubst)
       (simp_all add: fix_ui_metrics_def get_font_info_def set_ascent_def set_descent_def Let_def
          cong: if_cong)
  show ?thesis
    unfolding body
    by (simp add: then_do_def alert_and_check_def Let_def)
qed

lemma fix_ui_metrics_other_upem:
  assumes "get_noto_font env f = Some info" "is_UI_metrics info" "upem \<noteq> 2048" "upem \<noteq> 1000"
  shows "fix_ui_metrics env f upem fnt w = (Inl (NoExpectedUIMetrics upem), w)"
  using assms by (simp add: fix_ui_metrics_def get_font_info_def)

lemma fix_ui_metrics_not_ui:
  assumes "get_noto_font env f = Some info" "\<not> is_UI_metrics info"
  shows "fix_ui_metrics env f upem fnt w = (Inr fnt, w)"
  using assms by (simp add: fix_ui_metrics_def get_font_info_def)

lemma sample_env_font_info:
  "get_noto_font sample_env f = Some \<lparr>is_UI_metrics = True, script = ''Latn''\<rparr>"
  by (simp add: sample_env_def)

lemma digits_of_samples:
  "digits_of 2160 = ''2160''" "digits_of 2162 = ''2162''" "digits_of 2163 = ''2163''"
  by (simp_all add: digits_of.simps digit_char_def)

lemma fmt_wd_samples:
  "fmt_wd 4 2160 = ''2160''" "fmt_wd 4 2162 = ''2162''" "fmt_wd 4 2163 = ''2163''"
  by (simp_all add: fmt_wd_def fmt_d_def digits_of_samples)

text \<open>
  Claim C7, amended. On a font with UI metrics and an em-size with known expected values
  the ascent is examined first: when it differs from the expected ascent the update is
  reported (\<^verbatim>\<open>update ascent\<close>, from the current to the expected value), and the step fails
  on the ascent exactly when the ascent is more than 2 away from the expected one. The
  descent is examined only when the ascent has not failed, and then in the same way: a
  differing descent is reported, and the step fails on the descent exactly when it is more
  than 2 away. The step fails in no other case, and when it does not fail the font carries
  the expected values in the \<^verbatim>\<open>hhea\<close> and \<^verbatim>\<open>OS/2\<close> fields of each value that differed.
  Nothing but the reports is added to the world. At em-size 2048 an ascent of 2162 is
  updated to 2163 without failure, an ascent of 2160 fails. Worded for each of ascent
  and descent on its own the claim fails: at ascent 2160 and descent -556 the descent
  differs from the expected -555, yet the run ends on the ascent and the only report is
  the one of the ascent.
\<close>

theorem ui_metrics_tolerance:
  fixes fnt :: font and w :: world
  assumes "get_noto_font env f = Some info" "is_UI_metrics info"
    and "upem = 2048 \<and> ea = 2163 \<and> ed = - 555 \<or> upem = 1000 \<and> ea = 1069 \<and> ed = - 293"
  defines "r \<equiv> fix_ui_metrics env f upem fnt w"
  defines "a \<equiv> hhea_ascent fnt" and "d \<equiv> hhea_descent fnt"
  defines "ascent_report \<equiv>
             Print (''update ascent'' @ [CHR 0x0A] @ ''  from: '' @ fmt_wd 4 a
                    @ [CHR 0x0A] @ ''    to: '' @ fmt_wd 4 ea)"
  defines "descent_report \<equiv>
             Print (''update descent'' @ [CHR 0x0A] @ ''  from: '' @ fmt_wd 4 d
                    @ [CHR 0x0A] @ ''    to: '' @ fmt_wd 4 ed)"
  defines "ascent_fixed \<equiv>
             (if a \<noteq> ea
              then fnt\<lparr>hhea_ascent := ea, os2_sTypoAscender := ea, os2_usWinAscent := ea\<rparr>
              else fnt)"
  shows "(fst r = Inl (LargeDifference ''ascent'') \<longleftrightarrow> \<bar>a - ea\<bar> > 2)
       \<and> (fst r = Inl (LargeDifference ''descent'') \<longleftrightarrow> \<bar>a - ea\<bar> \<le> 2 \<and> \<bar>d - ed\<bar> > 2)
       \<and> ((\<exists>e. fst r = Inl e) \<longleftrightarrow> \<bar>a - ea\<bar> > 2 \<or> \<bar>d - ed\<bar> > 2)
       \<and> (\<bar>a - ea\<bar> \<le> 2 \<and> \<bar>d - ed\<bar> \<le> 2 \<longrightarrow>
            fst r = Inr (if d \<noteq> ed
                         then ascent_fixed\<lparr>hhea_descent := ed, os2_sTypoDescender := ed,
                                            os2_usWinDescent := - ed\<rparr>
                         else ascent_fixed))
       \<and> snd r = w\<lparr>w_events := w_events w
                       @ (if a \<noteq> ea then [ascent_report] else [])
                       @ (if d \<noteq> ed \<and> \<bar>a - ea\<bar> \<le> 2 then [descent_report] else [])\<rparr>"
proof -
  note nf = fix_ui_metrics_reconcile [OF assms(1-3), of fnt w, folded r_def a_def d_def]
  have 1: "fst r = Inl (LargeDifference ''ascent'') \<longleftrightarrow> \<bar>a - ea\<bar> > 2"
    by (simp add: nf Let_def)
  have 2: "fst r = Inl (LargeDifference ''descent'') \<longleftrightarrow> \<bar>a - ea\<bar> \<le> 2 \<and> \<bar>d - ed\<bar> > 2"
    by (simp add: nf Let_def)
  have 3: "(\<exists>e. fst r = Inl e) \<longleftrightarrow> \<bar>a - ea\<bar> > 2 \<or> \<bar>d - ed\<bar> > 2"
    by (simp add: nf Let_def)
  have 4: "\<bar>a - ea\<bar> \<le> 2 \<and> \<bar>d - ed\<bar> \<le> 2 \<longrightarrow>
            fst r = Inr (if d \<noteq> ed
                         then ascent_fixed\<lparr>hhea_descent := ed, os2_sTypoDescender := ed,
                                            os2_usWinDescent := - ed\<rparr>
                         else ascent_fixed)"
    by (simp add: nf Let_def set_ascent_def set_descent_def ascent_fixed_def)
  have 5: "snd r = w\<lparr>w_events := w_events w
                       @ (if a \<noteq> ea then [ascent_report] else [])
                       @ (if d \<noteq> ed \<and> \<bar>a - ea\<bar> \<le> 2 then [descent_report] else [])\<rparr>"
    by (simp add: nf Let_def alert_int_def print_def emit_def ascent_report_def
          descent_report_def)
  from 1 2 3 4 5 show ?thesis by (intro conjI)
qed

theorem ui_metrics_tolerance_witness:
  "fix_ui_metrics sample_env ''NotoSansUI-Regular.ttf'' 2048 (sample_font 2162 (- 555)) empty_world
     = (Inr (sample_font 2163 (- 555)),
        empty_world\<lparr>w_events :=
          [Print (''update ascent'' @ [CHR 0x0A] @ ''  from: 2162'' @ [CHR 0x0A] @ ''    to: 2163'')]\<rparr>)
   \<and> fix_ui_metrics sample_env ''NotoSansUI-Regular.ttf'' 2048 (sample_font 2160 (- 555)) empty_world
     = (Inl (LargeDifference ''ascent''),
        empty_world\<lparr>w_events :=
          [Print (''update ascent'' @ [CHR 0x0A] @ ''  from: 2160'' @ [CHR 0x0A] @ ''    to: 2163'')]\<rparr>)"
  using ui_metrics_tolerance [where env = sample_env and f = "''NotoSansUI-Regular.ttf''"
          and info = "\<lparr>is_UI_metrics = True, script = ''Latn''\<rparr>" and upem = 2048
          and ea = 2163 and ed = "- 555" and fnt = "sample_font 2162 (- 555)" and w = empty_world]
        ui_metrics_tolerance [where env = sample_env and f = "''NotoSansUI-Regular.ttf''"
          and info = "\<lparr>is_UI_metrics = True, script = ''Latn''\<rparr>" and upem = 2048
          and ea = 2163 and ed = "- 555" and fnt = "sample_font 2160 (- 555)" and w = empty_world]
  by (simp add: sample_env_font_info sample_font_def prod_eq_iff fmt_wd_samples empty_world_def)

theorem ui_metrics_descent_not_examined:
  "hhea_descent (sample_font 2160 (- 556)) \<noteq> - 555
   \<and> fix_ui_metrics sample_env ''NotoSansUI-Regular.ttf'' 2048 (sample_font 2160 (- 556)) empty_world
     = (Inl (LargeDifference ''ascent''),
        empty_world\<lparr>w_events :=
          [Print (''update ascent'' @ [CHR 0x0A] @ ''  from: 2160'' @ [CHR 0x0A] @ ''    to: 2163'')]\<rparr>)"
  by (simp add: fix_ui_metrics_def get_font_info_def sample_env_def sample_font_def then_do_def
        alert_and_check_def alert_int_def print_def emit_def fmt_wd_samples empty_world_def)

text \<open>
  Claim C8. With the UI-metrics flag set, the values the metrics step brings the font to
  depend on the em-size alone: ascent 2163 and descent -555 at em-size 2048, ascent 1069
  and descent -293 at em-size 1000 (reached exactly when both current values are within 2
  of them); at any other em-size the step fails (``no expected ui ascent/descent'') with no
  effect. With the flag not set the step changes nothing.
\<close>

theorem ui_metrics_by_upem:
  fixes fnt :: font and w :: world and upem :: int
  assumes "get_noto_font env f = Some info"
  defines "r \<equiv> fix_ui_metrics env f upem fnt w"
  defines "a \<equiv> hhea_ascent fnt" and "d \<equiv> hhea_descent fnt"
  shows "(is_UI_metrics info \<and> upem = 2048 \<longrightarrow>
            ((\<exists>fnt'. fst r = Inr fnt') \<longleftrightarrow> \<bar>a - 2163\<bar> \<le> 2 \<and> \<bar>d - (- 555)\<bar> \<le> 2) \<and>
            (\<forall>fnt'. fst r = Inr fnt' \<longrightarrow> hhea_ascent fnt' = 2163 \<and> hhea_descent fnt' = - 555) \<and>
            fst r \<noteq> Inl (NoExpectedUIMetrics upem))
       \<and> (is_UI_metrics info \<and> upem = 1000 \<longrightarrow>
            ((\<exists>fnt'. fst r = Inr fnt') \<longleftrightarrow> \<bar>a - 1069\<bar> \<le> 2 \<and> \<bar>d - (- 293)\<bar> \<le> 2) \<and>
            (\<forall>fnt'. fst r = Inr fnt' \<longrightarrow> hhea_ascent fnt' = 1069 \<and> hhea_descent fnt' = - 293) \<and>
            fst r \<noteq> Inl (NoExpectedUIMetrics upem))
       \<and> (is_UI_metrics info \<and> upem \<noteq> 2048 \<and> upem \<noteq> 1000 \<longrightarrow>
            r = (Inl (NoExpectedUIMetrics upem), w))
       \<and> (\<not> is_UI_metrics info \<longrightarrow> r = (Inr fnt, w))"
proof -
  have known: "((\<exists>fnt'. fst r = Inr fnt') \<longleftrightarrow> \<bar>a - ea\<bar> \<le> 2 \<and> \<bar>d - ed\<bar> \<le> 2) \<and>
            (\<forall>fnt'. fst r = Inr fnt' \<longrightarrow> hhea_ascent fnt' = ea \<and> hhea_descent fnt' = ed) \<and>
            fst r \<noteq> Inl (NoExpectedUIMetrics upem)"
    if ui: "is_UI_metrics info"
      and up: "upem = 2048 \<and> ea = 2163 \<and> ed = - 555 \<or> upem = 1000 \<and> ea = 1069 \<and> ed = - 293"
    for ea ed
  proof -
    note nf = fix_ui_metrics_reconcile [OF assms(1) ui up, of fnt w, folded r_def a_def d_def]
    have 1: "(\<exists>fnt'. fst r = Inr fnt') \<longleftrightarrow> \<bar>a - ea\<bar> \<le> 2 \<and> \<bar>d - ed\<bar> \<le> 2"
      by (simp add: nf Let_def)
    have 2: "\<forall>fnt'. fst r = Inr fnt' \<longrightarrow> hhea_ascent fnt' = ea \<and> hhea_descent fnt' = ed"
      by (auto simp: nf Let_def set_ascent_def set_descent_def a_def d_def split: if_splits)
    have 3: "fst r \<noteq> Inl (NoExpectedUIMetrics upem)"
      by (simp add: nf Let_def)
    from 1 2 3 show ?thesis by (intro conjI)
  qed
  have other: "is_UI_metrics info \<and> upem \<noteq> 2048 \<and> upem \<noteq> 1000 \<longrightarrow>
            r = (Inl (NoExpectedUIMetrics upem), w)"
    unfolding r_def using fix_ui_metrics_other_upem [OF assms(1)] by simp
  have unset: "\<not> is_UI_metrics info \<longrightarrow> r = (Inr fnt, w)"
    unfolding r_def using fix_ui_metrics_not_ui [OF assms(1)] by simp
  from known [of 2163 "- 555"] known [of 1069 "- 293"] other unset
  show ?thesis by simp
qed

theorem ui_metrics_by_upem_witness:
  "fix_ui_metrics sample_env ''NotoSansUI-Regular.ttf'' 1234 (sample_font 2163 (- 555)) empty_world
     = (Inl (NoExpectedUIMetrics 1234), empty_world)
   \<and> hhea_ascent (sample_font 1068 (- 293)) = 1068
   \<and> (\<exists>fnt'. fst (fix_ui_metrics sample_env ''NotoSansUI-Regular.ttf'' 1000
                     (sample_font 1068 (- 293)) empty_world) = Inr fnt'
          \<and> hhea_ascent fnt' = 1069 \<and> hhea_descent fnt' = - 293)
   \<and> (\<exists>fnt'. fst (fix_ui_metrics sample_env ''NotoSansUI-Regular.ttf'' 2048
                     (sample_font 2163 (- 556)) empty_world) = Inr fnt'
          \<and> hhea_ascent fnt' = 2163 \<and> hhea_descent fnt' = - 555)"
  using ui_metrics_by_upem [where env = sample_env and f = "''NotoSansUI-Regular.ttf''"
          and info = "\<lparr>is_UI_metrics = True, script = ''Latn''\<rparr>" and upem = 1234
          and fnt = "sample_font 2163 (- 555)" and w = empty_world]
        ui_metrics_by_upem [where env = sample_env and f = "''NotoSansUI-Regular.ttf''"
          and info = "\<lparr>is_UI_metrics = True, script = ''Latn''\<rparr>" and upem = 1000
          and fnt = "sample_font 1068 (- 293)" and w = empty_world]
        ui_metrics_by_upem [where env = sample_env and f = "''NotoSansUI-Regular.ttf''"
          and info = "\<lparr>is_UI_metrics = True, script = ''Latn''\<rparr>" and upem = 2048
          and fnt = "sample_font 2163 (- 556)" and w = empty_world]
  by (simp add: sample_env_font_info sample_font_def) blast

section \<open>The version directive\<close>

lemma strip_prefix_Some_iff: "strip_prefix p s = Some r \<longleftrightarrow> s = p @ r"
proof (induction p arbitrary: s)
  case Nil
  show ?case by auto
next
  case (Cons c p)
  then show ?case by (cases s) auto
qed

lemma new_version_re_match_iff:
  "new_version_re_match s \<longleftrightarrow>
     (\<exists>t. (t = [] \<or> t = [CHR 0x0A]) \<and>
          (s = ''keep'' @ t \<or>
           (\<exists>a c d e. s = [a, CHR ''.'', c, d, e] @ t \<and> (a = CHR ''1'' \<or> a = CHR ''2'')
               \<and> is_digit c \<and> is_digit d \<and> is_digit e)))"
proof -
  have keep: "(case strip_prefix ''keep'' s of Some r \<Rightarrow> at_end r | None \<Rightarrow> False)
      \<longleftrightarrow> (\<exists>t. (t = [] \<or> t = [CHR 0x0A]) \<and> s = ''keep'' @ t)"
  proof (cases "strip_prefix ''keep'' s")
    case None
    then have "\<And>t. s \<noteq> ''keep'' @ t"
      using strip_prefix_Some_iff [of "''keep''" s] by auto
    with None show ?thesis by simp
  next
    case (Some r)
    then have "s = ''keep'' @ r" by (simp only: strip_prefix_Some_iff)
    with Some show ?thesis by (auto simp: at_end_def)
  qed
  have num: "(case s of
         a # b # c # d # e # r \<Rightarrow>
           (a = CHR ''1'' \<or> a = CHR ''2'') \<and> b = CHR ''.'' \<and>
           is_digit c \<and> is_digit d \<and> is_digit e \<and> at_end r
       | _ \<Rightarrow> False)
      \<longleftrightarrow> (\<exists>t. (t = [] \<or> t = [CHR 0x0A]) \<and>
             (\<exists>a c d e. s = [a, CHR ''.'', c, d, e] @ t \<and> (a = CHR ''1'' \<or> a = CHR ''2'')
               \<and> is_digit c \<and> is_digit d \<and> is_digit e))"
    by (auto simp: at_end_def split: list.splits)
  show ?thesis
    by (simp only: new_version_re_match_def keep num ex_disj_distrib conj_disj_distribL)
qed

lemma print_font_events: "font_events (print s w) = font_events w"
  by (simp add: font_events_def print_def emit_def touches_font_def)

lemma ensure_dir_exists_font_events:
  "font_events (snd (ensure_dir_exists env p w)) = font_events w"
  by (simp add: ensure_dir_exists_def Let_def font_events_def print_def emit_def touches_font_def)

lemma release_dir_of_world: "snd (release_dir_of env release_dir w) = w"
  by (simp add: release_dir_of_def split: option.splits sum.splits)

lemma version_info_of_font_events:
  "font_events (snd (version_info_of env fs version_info w)) = font_events w"
  by (simp add: version_info_of_def print_font_events split: option.splits sum.splits)

lemma then_do_Inl: "then_do (Inl e, w) k = (Inl e, w)"
  by (simp add: then_do_def)

lemma then_do_Inr: "then_do (Inr x, w) k = k x w"
  by (simp add: then_do_def)

lemma autofix_fonts_bad_version:
  assumes "check_version version = Inl err"
  shows "\<exists>e w'. autofix_fonts env font_names dstdir release_dir version version_info autohint
                   dry_run w = (Inl e, w')
              \<and> font_events w' = font_events w"
proof -
  let ?run = "autofix_fonts env font_names dstdir release_dir version version_info autohint
                dry_run w"
  obtain r1 w1 where s1: "ensure_dir_exists env dstdir w = (r1, w1)"
    by (cases "ensure_dir_exists env dstdir w")
  have e1: "font_events w1 = font_events w"
    using ensure_dir_exists_font_events [of env dstdir w] by (simp add: s1)
  show ?thesis
  proof (cases r1)
    case (Inl e)
    have "?run = (Inl e, w1)"
      by (simp only: autofix_fonts_def s1 Inl then_do_Inl)
    with e1 show ?thesis by simp
  next
    case d: (Inr d)
    let ?wp = "print (''Dest dir: '' @ d)
                   (print (''Processing'' @ [CHR 0x0A] @ ''  ''
                             @ join_with ([CHR 0x0A] @ ''  '') (sort_strings font_names)) w1)"
    have ep: "font_events ?wp = font_events w"
      by (simp only: print_font_events e1)
    obtain r2 w2 where s2: "release_dir_of env release_dir ?wp = (r2, w2)"
      by (cases "release_dir_of env release_dir ?wp")
    have e2: "font_events w2 = font_events w"
      using release_dir_of_world [of env release_dir ?wp] ep by (simp only: s2 snd_conv)
    show ?thesis
    proof (cases r2)
      case (Inl e)
      have "?run = (Inl e, w2)"
        by (simp only: autofix_fonts_def s1 d then_do_Inr s2 Inl then_do_Inl)
      with e2 show ?thesis by simp
    next
      case rd: (Inr reldir)
      obtain r3 w3 where s3: "version_info_of env (sort_strings font_names) version_info w2 = (r3, w3)"
        by (cases "version_info_of env (sort_strings font_names) version_info w2")
      have e3: "font_events w3 = font_events w"
        using version_info_of_font_events [of env "sort_strings font_names" version_info w2] e2
        by (simp only: s3 snd_conv)
      show ?thesis
      proof (cases r3)
        case (Inl e)
        have "?run = (Inl e, w3)"
          by (simp only: autofix_fonts_def s1 d then_do_Inr s2 rd s3 Inl then_do_Inl)
        with e3 show ?thesis by simp
      next
        case (Inr vi)
        have "?run = (Inl err, w3)"
          by (simp only: autofix_fonts_def s1 d then_do_Inr s2 rd s3 Inr check_step_def assms
                then_do_Inl)
        with e3 show ?thesis by simp
      qed
    qed
  qed
qed

lemma autofix_fonts_bad_version_only:
  assumes "check_version version = Inl err"
    and "os_realpath env dstdir \<in> w_dirs w" "release_dir = None" "version_info = Some vi"
    and "check_version_info (cur_date env) vi = Inr ()"
  shows "fst (autofix_fonts env font_names dstdir release_dir version version_info autohint
                dry_run w) = Inl err"
  using assms
  by (simp add: autofix_fonts_def ensure_dir_exists_def then_do_Inr then_do_Inl release_dir_of_def
        version_info_of_def check_step_def)

text \<open>
  Claim C10. The check of the version directive passes exactly for the absent value and for
  the strings the pattern \<^verbatim>\<open>^(?:keep|[12]\.\d{3})$\<close> matches: \<^verbatim>\<open>keep\<close>, or a digit 1 or 2, a
  period and three digits, each optionally followed by one newline (which \<^verbatim>\<open>$\<close> lets
  through). For any other directive the check raises (``did not match regex''), and so
  the whole batch run ends in an exception without opening, writing or hinting any font;
  when the destination directory exists, no release directory is given and the version
  info passes its own check, that exception is the one of the version check. \<^verbatim>\<open>1.05\<close> and
  \<^verbatim>\<open>3.000\<close> are rejected.
\<close>

theorem autofix_fonts_version_directive:
  fixes w :: world and env :: env and font_names :: "string list" and dstdir :: string
    and release_dir version version_info autohint :: "string option" and dry_run :: bool
  defines "run \<equiv> autofix_fonts env font_names dstdir release_dir version version_info autohint
                     dry_run w"
  shows "(check_version version = Inr () \<longleftrightarrow>
            version = None \<or>
            (\<exists>t. (t = [] \<or> t = [CHR 0x0A]) \<and>
                 (version = Some (''keep'' @ t) \<or>
                  (\<exists>a c d e. version = Some ([a, CHR ''.'', c, d, e] @ t)
                      \<and> (a = CHR ''1'' \<or> a = CHR ''2'')
                      \<and> c \<in> set ''0123456789'' \<and> d \<in> set ''0123456789''
                      \<and> e \<in> set ''0123456789''))))
       \<and> (check_version version \<noteq> Inr () \<longrightarrow>
            check_version version = Inl (VersionArgNoMatch (the version))
            \<and> (\<exists>e. fst run = Inl e)
            \<and> font_events (snd run) = font_events w)
       \<and> (check_version version \<noteq> Inr () \<and> os_realpath env dstdir \<in> w_dirs w
            \<and> release_dir = None \<and> version_info = Some vi
            \<and> check_version_info (cur_date env) vi = Inr () \<longrightarrow>
            fst run = Inl (VersionArgNoMatch (the version)))"
proof -
  have accept: "check_version version = Inr () \<longleftrightarrow>
            version = None \<or>
            (\<exists>t. (t = [] \<or> t = [CHR 0x0A]) \<and>
                 (version = Some (''keep'' @ t) \<or>
                  (\<exists>a c d e. version = Some ([a, CHR ''.'', c, d, e] @ t)
                      \<and> (a = CHR ''1'' \<or> a = CHR ''2'')
                      \<and> c \<in> set ''0123456789'' \<and> d \<in> set ''0123456789''
                      \<and> e \<in> set ''0123456789'')))"
  proof (cases version)
    case None
    then show ?thesis by (simp add: check_version_def)
  next
    case (Some v)
    have "check_version version = Inr () \<longleftrightarrow> new_version_re_match v"
      by (simp add: check_version_def Some)
    then show ?thesis
      by (simp only: new_version_re_match_iff is_digit_def Some option.inject option.distinct
            simp_thms)
  qed
  have err: "check_version version = Inl (VersionArgNoMatch (the version))"
    if "check_version version \<noteq> Inr ()"
    using that by (simp add: check_version_def split: if_splits)
  have reject: "(\<exists>e. fst run = Inl e) \<and> font_events (snd run) = font_events w"
    if "check_version version \<noteq> Inr ()"
  proof -
    from autofix_fonts_bad_version [OF err [OF that]]
    obtain e w' where "run = (Inl e, w')" "font_events w' = font_events w"
      unfolding run_def by blast
    then show ?thesis by simp
  qed
  have only: "fst run = Inl (VersionArgNoMatch (the version))"
    if "check_version version \<noteq> Inr ()" "os_realpath env dstdir \<in> w_dirs w"
       "release_dir = None" "version_info = Some vi"
       "check_version_info (cur_date env) vi = Inr ()"
    unfolding run_def
    using autofix_fonts_bad_version_only [OF err [OF that(1)] that(2-5)] .
  from accept err reject only show ?thesis by blast
qed

subsection \<open>Sample runs\<close>

lemma gnv_sample:
  "get_new_version (sample_font a d) None None w = (Inr ''2.040'', w)"
  by (simp add: get_new_version_def extract_version_def font_version_def sample_font_def
        version_re_match_def is_digit_def version_str_to_mm_def py_int_def is_space_def
        nat_of_digits_def digit_val_def Let_def compute_version_def)

lemma check_version_info_sample:
  "check_version_info (Date 2017 3 1) ''GOOG;noto-fonts:20170220:a8a215d2e889'' = Inr ()"
proof -
  have fields: "nat_of_digits ''2017'' = 2017" "nat_of_digits ''02'' = 2" "nat_of_digits ''20'' = 20"
    by (simp_all add: nat_of_digits_def digit_val_def)
  have "check_version_info (Date 2017 3 1)
        (''GOOG;noto-fonts:'' @ ''2017'' @ ''02'' @ ''20'' @ '':'' @ ''a8a215d2e889'' @ []) = Inr ()"
    by (subst check_version_info_form)
       (simp_all add: is_digit_def is_hex_lower_def fields days_in_month_def date_gt_def)
  then show ?thesis by simp
qed

lemma sample_font_fields:
  "names (sample_font a d) = [5 \<mapsto> ''Version 2.000'']"
  "head_unitsPerEm (sample_font a d) = 2048"
  "hhea_ascent (sample_font a d) = a" "hhea_descent (sample_font a d) = d"
  by (simp_all add: sample_font_def)

lemma fix_font_dry_run_sample:
  "fix_font sample_env ''NotoSansUI-Regular.ttf'' ''out'' None None
      ''GOOG;noto-fonts:20170220:a8a215d2e889'' None True
      \<lparr>w_dirs = {''out''}, w_files = {''NotoSansUI-Regular.ttf''},
       w_fonts = [''NotoSansUI-Regular.ttf'' \<mapsto> sample_font 2163 (- 555)], w_events = evs\<rparr>
   = (Inr (),
      \<lparr>w_dirs = {''out/unhinted'', ''out''}, w_files = {''NotoSansUI-Regular.ttf''},
       w_fonts = [''NotoSansUI-Regular.ttf'' \<mapsto> sample_font 2163 (- 555)],
       w_events = evs @
         [Print ([CHR 0x0A] @ ''-----'' @ [CHR 0x0A] @ ''font: NotoSansUI-Regular.ttf''),
          LoadFont ''NotoSansUI-Regular.ttf'',
          Print (''update revision'' @ [CHR 0x0A] @ ''  from: '' @ [CHR 0x22] @ ''2.000''
                 @ [CHR 0x22] @ [CHR 0x0A] @ ''    to: '' @ [CHR 0x22] @ ''2.040'' @ [CHR 0x22]),
          Print (''update version string'' @ [CHR 0x0A] @ ''  from: '' @ [CHR 0x22]
                 @ ''Version 2.000'' @ [CHR 0x22] @ [CHR 0x0A] @ ''    to: '' @ [CHR 0x22]
                 @ ''Version 2.040;GOOG;noto-fonts:20170220:a8a215d2e889'' @ [CHR 0x22]),
          Print (''making '' @ [CHR 0x27] @ ''out/unhinted'' @ [CHR 0x27]),
          MakeDirs ''out/unhinted'',
          Print (''dry run would write:'' @ [CHR 0x0A] @ ''  '' @ [CHR 0x22]
                 @ ''out/unhinted/NotoSansUI-Regular.ttf'' @ [CHR 0x22])]\<rparr>)"
  by (simp add: fix_font_def then_do_def load_font_def print_def emit_def
        get_release_font_def get_release_fontpath_def gnv_sample
        fix_version_fields_def alert_str_def sample_env_def fix_ui_metrics_def get_font_info_def
        ensure_dir_exists_def path_join_def path_basename_def truthy_def Let_def
        sample_font_fields)

lemma sample_env_fields:
  "cur_date sample_env = Date 2017 3 1" "os_realpath sample_env p = p"
  "hinted_scripts sample_env = [''Latn'' \<mapsto> Some ''latn'']"
  by (simp_all add: sample_env_def)

theorem autofix_fonts_version_directive_witness:
  "check_version (Some ''1.05'') = Inl (VersionArgNoMatch ''1.05'')
   \<and> check_version (Some ''3.000'') = Inl (VersionArgNoMatch ''3.000'')
   \<and> check_version (Some ''2.040'') = Inr ()
   \<and> check_version (Some ''keep'') = Inr ()
   \<and> fst (autofix_fonts sample_env [''NotoSansUI-Regular.ttf''] ''out'' None (Some ''1.05'')
             (Some ''GOOG;noto-fonts:20170220:a8a215d2e889'') None False (sample_world {''out''}))
        = Inl (VersionArgNoMatch ''1.05'')
   \<and> font_events (snd (autofix_fonts sample_env [''NotoSansUI-Regular.ttf''] ''out'' None
             (Some ''1.05'') (Some ''GOOG;noto-fonts:20170220:a8a215d2e889'') None False
             (sample_world {''out''}))) = []
   \<and> fst (autofix_fonts sample_env [''NotoSansUI-Regular.ttf''] ''out'' None (Some ''3.000'')
             (Some ''GOOG;noto-fonts:20170220:a8a215d2e889'') None False (sample_world {''out''}))
        = Inl (VersionArgNoMatch ''3.000'')"
  using autofix_fonts_version_directive [where version = "Some ''1.05''" and env = sample_env
          and font_names = "[''NotoSansUI-Regular.ttf'']" and dstdir = "''out''"
          and release_dir = None and version_info = "Some ''GOOG;noto-fonts:20170220:a8a215d2e889''"
          and vi = "''GOOG;noto-fonts:20170220:a8a215d2e889''"
          and autohint = None and dry_run = False and w = "sample_world {''out''}"]
        autofix_fonts_version_directive [where version = "Some ''3.000''" and env = sample_env
          and font_names = "[''NotoSansUI-Regular.ttf'']" and dstdir = "''out''"
          and release_dir = None and version_info = "Some ''GOOG;noto-fonts:20170220:a8a215d2e889''"
          and vi = "''GOOG;noto-fonts:20170220:a8a215d2e889''"
          and autohint = None and dry_run = False and w = "sample_world {''out''}"]
        autofix_fonts_version_directive [where version = "Some ''2.040''"]
        autofix_fonts_version_directive [where version = "Some ''keep''"]
  by (simp add: check_version_def new_version_re_match_def at_end_def is_digit_def
        sample_env_fields sample_world_def check_version_info_sample font_events_def)

section \<open>Dry runs\<close>

text \<open>
  Claim C9 says that a dry run is read-only: no font file written, no directory created,
  no process started. The code keeps to it for files and processes, not for directories:
  \<^verbatim>\<open>autofix_fonts\<close> calls \<^verbatim>\<open>ensure_dir_exists\<close> on the destination before it looks at the
  flag, and \<^verbatim>\<open>fix_font\<close> calls it on the \<^verbatim>\<open>unhinted\<close> directory before its own test of
  the flag (\<^verbatim>\<open>autohint_font\<close> tests the flag first). The run below is a dry run on one
  font into a destination that does not exist. It ends normally, opens the font, writes
  no font and runs no command, and it makes both directories.
\<close>

theorem dry_run_creates_directories:
  "fst dry_run_sample = Inr ()
   \<and> w_dirs (sample_world {}) = {}
   \<and> w_dirs (snd dry_run_sample) = {''out/unhinted'', ''out''}
   \<and> w_files (snd dry_run_sample) = w_files (sample_world {})
   \<and> w_events (snd dry_run_sample) =
         [Print (''making '' @ [CHR 0x27] @ ''out'' @ [CHR 0x27]),
          MakeDirs ''out'',
          Print (''Processing'' @ [CHR 0x0A] @ ''  NotoSansUI-Regular.ttf''),
          Print ''Dest dir: out'',
          Print ''*** dry run ***'',
          Print ([CHR 0x0A] @ ''-----'' @ [CHR 0x0A] @ ''font: NotoSansUI-Regular.ttf''),
          LoadFont ''NotoSansUI-Regular.ttf'',
          Print (''update revision'' @ [CHR 0x0A] @ ''  from: '' @ [CHR 0x22] @ ''2.000''
                 @ [CHR 0x22] @ [CHR 0x0A] @ ''    to: '' @ [CHR 0x22] @ ''2.040'' @ [CHR 0x22]),
          Print (''update version string'' @ [CHR 0x0A] @ ''  from: '' @ [CHR 0x22]
                 @ ''Version 2.000'' @ [CHR 0x22] @ [CHR 0x0A] @ ''    to: '' @ [CHR 0x22]
                 @ ''Version 2.040;GOOG;noto-fonts:20170220:a8a215d2e889'' @ [CHR 0x22]),
          Print (''making '' @ [CHR 0x27] @ ''out/unhinted'' @ [CHR 0x27]),
          MakeDirs ''out/unhinted'',
          Print (''dry run would write:'' @ [CHR 0x0A] @ ''  '' @ [CHR 0x22]
                 @ ''out/unhinted/NotoSansUI-Regular.ttf'' @ [CHR 0x22])]"
  by (simp add: dry_run_sample_def autofix_fonts_def sample_world_def ensure_dir_exists_def
        sample_env_fields print_def emit_def then_do_Inr then_do_Inl release_dir_of_def
        version_info_of_def check_version_info_sample check_step_def check_version_def
        check_autohint_def truthy_def sort_strings_def Let_def fix_font_dry_run_sample)

end
